theory Spec2Isabelle
  imports Complex_Main "HOL-Library.Word" "HOL-Library.Sublist" "HOL-Library.Log_Nat"
begin

unbundle bit_operations_syntax

section \<open>Go values used by the services\<close>

subsection \<open>Errors\<close>

text \<open>
  A Go \<open>error\<close> is either a plain message (\<open>errors.New\<close>, \<open>fmt.Errorf\<close> without
  \<open>%w\<close>) or a message that wraps another error (\<open>fmt.Errorf\<close> with \<open>%w\<close>).
  \<open>nil\<close> is \<open>None\<close> of \<open>error option\<close>.
\<close>

datatype error = ErrorString string | WrapError string error

fun Error :: "error \<Rightarrow> string" where
  "Error (ErrorString m) = m"
| "Error (WrapError m _) = m"

fun Unwrap :: "error \<Rightarrow> error option" where
  "Unwrap (ErrorString _) = None"
| "Unwrap (WrapError _ e) = Some e"

text \<open>\<open>fmt.Errorf(prefix + "%w", err)\<close>: the message is the prefix followed by
  \<open>err.Error()\<close>, and the new error wraps \<open>err\<close>.\<close>

definition Errorf_w :: "string \<Rightarrow> error \<Rightarrow> error" where
  "Errorf_w pfx err = WrapError (pfx @ Error err) err"

subsection \<open>Decimal rendering (the verb \<open>%d\<close>) and substrings\<close>

definition digit :: "nat \<Rightarrow> char" where
  "digit n = ''0123456789'' ! n"

fun utoa :: "nat \<Rightarrow> string" where
  "utoa n = (if n < 10 then [digit n] else utoa (n div 10) @ [digit (n mod 10)])"

declare utoa.simps [simp del]

definition itoa :: "int \<Rightarrow> string" where
  "itoa i = (if i < 0 then CHR ''-'' # utoa (nat (- i)) else utoa (nat i))"

text \<open>\<open>strings.Contains(s, substr)\<close>.\<close>

fun Contains :: "string \<Rightarrow> string \<Rightarrow> bool" where
  "Contains [] substr = (substr = [])"
| "Contains (c # cs) substr = (prefix substr (c # cs) \<or> Contains cs substr)"

text \<open>\<open>strings.Join(elems, sep)\<close>.\<close>

fun Join :: "string list \<Rightarrow> string \<Rightarrow> string" where
  "Join [] sep = []"
| "Join [x] sep = x"
| "Join (x # y # ys) sep = x @ sep @ Join (y # ys) sep"

subsection \<open>Instants and durations\<close>

text \<open>
  A \<open>time.Time\<close> is the number of nanoseconds since the zero time of Go
  (January 1, year 1, 00:00:00 UTC), so \<open>IsZero\<close> is equality with 0.
  A \<open>time.Duration\<close> is an \<open>int64\<close> count of nanoseconds.
\<close>

type_synonym time = int
type_synonym duration = int

definition IsZero :: "time \<Rightarrow> bool" where
  "IsZero t \<longleftrightarrow> t = 0"

definition minDuration :: duration where
  "minDuration = - (2 ^ 63)"

definition maxDuration :: duration where
  "maxDuration = 2 ^ 63 - 1"

text \<open>\<open>t.Sub(u)\<close> on wall-clock readings: the difference, saturated to the range of
  a \<open>Duration\<close>.\<close>

definition Sub :: "time \<Rightarrow> time \<Rightarrow> duration" where
  "Sub t u = (if t - u < minDuration then minDuration
              else if maxDuration < t - u then maxDuration else t - u)"

text \<open>\<open>time.Until(t)\<close> is \<open>t.Sub(time.Now())\<close>; the reading of the clock is the
  second argument.\<close>

definition Until :: "time \<Rightarrow> time \<Rightarrow> duration" where
  "Until t now = Sub t now"

definition Hour :: duration where
  "Hour = 3600000000000"

text \<open>Go's integer division truncates towards zero, and the remainder has the sign of
  the dividend.\<close>

definition quo :: "int \<Rightarrow> int \<Rightarrow> int" where
  "quo a b = sgn a * sgn b * (\<bar>a\<bar> div \<bar>b\<bar>)"

definition rem :: "int \<Rightarrow> int \<Rightarrow> int" where
  "rem a b = a - b * quo a b"

subsection \<open>\<open>float64\<close> arithmetic\<close>

text \<open>
  A finite \<open>float64\<close> is a rational; every operation rounds its exact result to the
  nearest number with a 53-bit significand, ties to the even significand. The exponent
  range is not bounded here: the magnitudes that arise from a \<open>Duration\<close> in hours lie
  between \<open>2^-42\<close> and \<open>2^22\<close>, far inside the normal range of the format.
\<close>

definition ilog2 :: "rat \<Rightarrow> int" where
  "ilog2 x = (if 1 \<le> x then int (floorlog 2 (nat \<lfloor>x\<rfloor>)) - 1
              else - int (floorlog 2 (nat (\<lceil>1 / x\<rceil> - 1))))"

definition round_half_even :: "rat \<Rightarrow> int" where
  "round_half_even y =
     (let n = \<lfloor>y\<rfloor>; r = y - of_int n
      in if r < 1 / 2 then n else if 1 / 2 < r then n + 1 else if even n then n else n + 1)"

definition f64 :: "rat \<Rightarrow> rat" where
  "f64 x = (if x = 0 then 0
            else let e = ilog2 \<bar>x\<bar> - 52
                 in of_int (round_half_even (x / (2 powi e))) * (2 powi e))"

text \<open>\<open>d.Hours()\<close>:
  \<^verbatim>\<open>hour := d / Hour; nsec := d % Hour; return float64(hour) + float64(nsec)/(60*60*1e9)\<close>\<close>

definition Hours :: "duration \<Rightarrow> rat" where
  "Hours d =
     (let hour = quo d Hour; nsec = rem d Hour
      in f64 (f64 (of_int hour) + f64 (f64 (of_int nsec) / 3600000000000)))"

text \<open>The conversion \<open>int(x)\<close> of a \<open>float64\<close> discards the fraction (truncation
  towards zero).\<close>

definition go_int :: "rat \<Rightarrow> int" where
  "go_int x = (if 0 \<le> x then \<lfloor>x\<rfloor> else \<lceil>x\<rceil>)"

text \<open>\<open>t.UnixMilli()\<close>: milliseconds since January 1, 1970 UTC, which is
  62135596800 seconds after the zero time.\<close>

definition UnixMilli :: "time \<Rightarrow> int" where
  "UnixMilli t = (t - 62135596800 * 1000000000) div 1000000"

subsection \<open>SHA-256, HMAC and base64 (\<open>crypto/sha256\<close>, \<open>crypto/hmac\<close>, \<open>encoding/base64\<close>)\<close>

text \<open>
  A byte is an integer below 256 and a 32-bit word an integer below \<open>2^32\<close>; sums wrap
  modulo \<open>2^32\<close>. The functions follow FIPS 180-4 (SHA-256), RFC 2104 (HMAC) and
  RFC 4648 (the standard alphabet with padding), which the Go packages implement.
\<close>

definition add32 :: "int \<Rightarrow> int \<Rightarrow> int" where
  "add32 a b = (a + b) mod 4294967296"

definition rotr :: "nat \<Rightarrow> int \<Rightarrow> int" where
  "rotr n x = x div 2 ^ n + (x mod 2 ^ n) * 2 ^ (32 - n)"

definition not32 :: "int \<Rightarrow> int" where
  "not32 x = 4294967295 - x"

definition Ch :: "int \<Rightarrow> int \<Rightarrow> int \<Rightarrow> int" where
  "Ch x y z = (x AND y) XOR (not32 x AND z)"

definition Maj :: "int \<Rightarrow> int \<Rightarrow> int \<Rightarrow> int" where
  "Maj x y z = (x AND y) XOR (x AND z) XOR (y AND z)"

definition bsig0 :: "int \<Rightarrow> int" where
  "bsig0 x = rotr 2 x XOR rotr 13 x XOR rotr 22 x"

definition bsig1 :: "int \<Rightarrow> int" where
  "bsig1 x = rotr 6 x XOR rotr 11 x XOR rotr 25 x"

definition ssig0 :: "int \<Rightarrow> int" where
  "ssig0 x = rotr 7 x XOR rotr 18 x XOR x div 2 ^ 3"

definition ssig1 :: "int \<Rightarrow> int" where
  "ssig1 x = rotr 17 x XOR rotr 19 x XOR x div 2 ^ 10"

definition sha256_K :: "int list" where
  "sha256_K =
    [1116352408, 1899447441, 3049323471, 3921009573, 961987163, 1508970993,
     2453635748, 2870763221, 3624381080, 310598401, 607225278, 1426881987,
     1925078388, 2162078206, 2614888103, 3248222580, 3835390401, 4022224774,
     264347078, 604807628, 770255983, 1249150122, 1555081692, 1996064986,
     2554220882, 2821834349, 2952996808, 3210313671, 3336571891, 3584528711,
     113926993, 338241895, 666307205, 773529912, 1294757372, 1396182291,
     1695183700, 1986661051, 2177026350, 2456956037, 2730485921, 2820302411,
     3259730800, 3345764771, 3516065817, 3600352804, 4094571909, 275423344,
     430227734, 506948616, 659060556, 883997877, 958139571, 1322822218,
     1537002063, 1747873779, 1955562222, 2024104815, 2227730452, 2361852424,
     2428436474, 2756734187, 3204031479, 3329325298]"

definition sha256_init :: "int list" where
  "sha256_init =
    [1779033703, 3144134277, 1013904242, 2773480762,
     1359893119, 2600822924, 528734635, 1541459225]"

fun sha256_shift :: "int \<Rightarrow> int \<Rightarrow> int list \<Rightarrow> int list" where
  "sha256_shift t1 t2 [a, b, c, d, e, f, g, h] = [add32 t1 t2, a, b, c, add32 d t1, e, f, g]"
| "sha256_shift t1 t2 s = s"

fun sha256_round :: "int \<Rightarrow> int \<Rightarrow> int list \<Rightarrow> int list" where
  "sha256_round k w [a, b, c, d, e, f, g, h] =
     sha256_shift (add32 (add32 (add32 (add32 h (bsig1 e)) (Ch e f g)) k) w)
       (add32 (bsig0 a) (Maj a b c)) [a, b, c, d, e, f, g, h]"
| "sha256_round k w s = s"

text \<open>The message schedule, kept as a window of the last 16 words: its head is the
  word of the current round.\<close>

definition sha256_next :: "int list \<Rightarrow> int list" where
  "sha256_next w =
     tl w @ [add32 (add32 (add32 (ssig1 (w ! 14)) (w ! 9)) (ssig0 (w ! 1))) (w ! 0)]"

fun sha256_rounds :: "int list \<Rightarrow> int list \<Rightarrow> int list \<Rightarrow> int list" where
  "sha256_rounds [] w s = s"
| "sha256_rounds (k # ks) w s = sha256_rounds ks (sha256_next w) (sha256_round k (hd w) s)"

definition sha256_block :: "int list \<Rightarrow> int list \<Rightarrow> int list" where
  "sha256_block h w = map2 add32 h (sha256_rounds sha256_K w h)"

fun sha256_blocks :: "int list \<Rightarrow> int list \<Rightarrow> int list" where
  "sha256_blocks h ws =
     (if length ws < 16 then h else sha256_blocks (sha256_block h (take 16 ws)) (drop 16 ws))"

declare sha256_blocks.simps [simp del]

fun be32 :: "int list \<Rightarrow> int list" where
  "be32 (a # b # c # d # bs) = (a * 16777216 + b * 65536 + c * 256 + d) # be32 bs"
| "be32 bs = []"

definition bytes_of_u32 :: "int \<Rightarrow> int list" where
  "bytes_of_u32 x = [x div 16777216, x div 65536 mod 256, x div 256 mod 256, x mod 256]"

definition bytes_of_u64 :: "int \<Rightarrow> int list" where
  "bytes_of_u64 x = bytes_of_u32 (x div 4294967296 mod 4294967296) @ bytes_of_u32 (x mod 4294967296)"

definition sha256_pad :: "int list \<Rightarrow> int list" where
  "sha256_pad m =
     m @ [128] @ replicate ((119 - length m mod 64) mod 64) 0 @ bytes_of_u64 (8 * int (length m))"

definition sha256 :: "int list \<Rightarrow> int list" where
  "sha256 m = concat (map bytes_of_u32 (sha256_blocks sha256_init (be32 (sha256_pad m))))"

text \<open>\<open>[]byte(s)\<close>.\<close>

definition bytes :: "string \<Rightarrow> int list" where
  "bytes s = map of_char s"

definition hmac_sha256 :: "int list \<Rightarrow> int list \<Rightarrow> int list" where
  "hmac_sha256 key m =
     (let k = (if 64 < length key then sha256 key else key);
          k0 = k @ replicate (64 - length k) 0
      in sha256 (map (\<lambda>b. b XOR 92) k0 @ sha256 (map (\<lambda>b. b XOR 54) k0 @ m)))"

definition b64_alphabet :: string where
  "b64_alphabet = ''ABCDEFGHIJKLMNOPQRSTUVWXYZabcdefghijklmnopqrstuvwxyz0123456789+/''"

definition b64_char :: "int \<Rightarrow> char" where
  "b64_char i = b64_alphabet ! nat (i mod 64)"

text \<open>\<open>base64.StdEncoding.EncodeToString\<close>.\<close>

fun EncodeToString :: "int list \<Rightarrow> string" where
  "EncodeToString (a # b # c # bs) =
     [b64_char (a div 4), b64_char (a mod 4 * 16 + b div 16),
      b64_char (b mod 16 * 4 + c div 64), b64_char c] @ EncodeToString bs"
| "EncodeToString [a, b] =
     [b64_char (a div 4), b64_char (a mod 4 * 16 + b div 16), b64_char (b mod 16 * 4), CHR ''='']"
| "EncodeToString [a] = [b64_char (a div 4), b64_char (a mod 4 * 16), CHR ''='', CHR ''='']"
| "EncodeToString [] = []"

text \<open>\<open>generateSign\<close> of the DingTalk notifier.\<close>

definition generateSign :: "string \<Rightarrow> string \<Rightarrow> string" where
  "generateSign timestamp secret =
     (let stringToSign = timestamp @ [CHR 0x0A] @ secret
      in EncodeToString (hmac_sha256 (bytes secret) (bytes stringToSign)))"

section \<open>Data model (packages \<open>models\<close> and \<open>config\<close>)\<close>

record domain =
  ID :: nat
  Name :: string
  Registrar :: string
  ExpiryDate :: time
  CreatedDate :: time
  UpdatedDate :: time
  Status :: string
  DaysRemaining :: int
  Tags :: string
  LastChecked :: time
  IsActive :: bool
  CreatedAt :: time
  UpdatedAt :: time

text \<open>A row of the notification table; its key is assigned by the database and is not
  part of the model.\<close>

record notification =
  n_DomainID :: nat
  n_Type :: string
  n_Content :: string
  n_Status :: string
  n_SentAt :: time

text \<open>\<open>DomainInfo\<close>, the result of a WHOIS query.\<close>

record DomainInfo =
  i_Domain :: string
  i_Registrar :: string
  i_ExpiryDate :: time
  i_CreatedDate :: time
  i_UpdatedDate :: time
  i_Status :: string
  i_NameServers :: "string list"
  i_RawData :: string

record EmailConfig =
  email_Enabled :: bool
  SMTPHost :: string
  SMTPPort :: int
  From :: string
  Password :: string
  To :: "string list"

record WebhookConfig =
  webhook_Enabled :: bool
  URL :: string

record TelegramConfig =
  telegram_Enabled :: bool
  BotToken :: string
  ChatID :: string

record DingDingConfig =
  dingding_Enabled :: bool
  Webhook :: string
  Secret :: string

record NotificationsConfig =
  cfg_Email :: EmailConfig
  cfg_Webhook :: WebhookConfig
  cfg_Telegram :: TelegramConfig
  cfg_DingDing :: DingDingConfig

section \<open>The notifiers and the world they act on\<close>

text \<open>The four implementations of the interface \<open>Notifier\<close>, each holding its
  configuration.\<close>

datatype notifier =
    EmailNotifier EmailConfig
  | WebhookNotifier WebhookConfig
  | TelegramNotifier TelegramConfig
  | DingDingNotifier DingDingConfig

text \<open>\<open>fmt.Sprintf("%T", notifier)\<close>.\<close>

fun type_name :: "notifier \<Rightarrow> string" where
  "type_name (EmailNotifier _) = ''*services.EmailNotifier''"
| "type_name (WebhookNotifier _) = ''*services.WebhookNotifier''"
| "type_name (TelegramNotifier _) = ''*services.TelegramNotifier''"
| "type_name (DingDingNotifier _) = ''*services.DingDingNotifier''"

record NotifyService =
  notifiers :: "notifier list"

text \<open>\<open>notifyService\<close> is a pointer: \<open>None\<close> is \<open>nil\<close>. The WHOIS service of the
  monitor is part of the environment below.\<close>

record MonitorService =
  notifyService :: "NotifyService option"
  alertDays :: "int list"

text \<open>Values handed to \<open>json.Marshal\<close> and read back from a decoded body
  (\<open>map[string]interface{}\<close>): a decoded number is a \<open>float64\<close>.\<close>

datatype json =
    JNull
  | JBool bool
  | JInt int
  | JFloat rat
  | JString string
  | JArray "json list"
  | JObject "(string \<times> json) list"

record http_response =
  StatusCode :: int
  Body :: string

text \<open>\<open>smtp.PlainAuth(identity, username, password, host)\<close>.\<close>

type_synonym plain_auth = "string \<times> string \<times> string \<times> string"

text \<open>
  Everything outside the program is a field of the environment. A call that reaches the
  outside (the clock, the WHOIS service, the database, SMTP, HTTP) takes the number of
  such calls made so far as its first argument, so that two calls with the same arguments
  may answer differently. The remaining fields are pure library functions.
  \<^item> \<open>Now\<close>: \<open>time.Now()\<close>.
  \<^item> \<open>whois_QueryDomain\<close>: \<open>WhoisService.QueryDomain\<close>, whose answer is decided by the
    remote service.
  \<^item> \<open>db_Find_err\<close>, \<open>db_Save_err\<close>, \<open>db_Create_err\<close>: the \<open>Error\<close> field of the result
    of \<open>Find\<close>, \<open>Save\<close> and \<open>Create\<close>.

  \<^item> \<open>smtp_SendMail\<close>: \<open>smtp.SendMail(addr, auth, from, to, msg)\<close>.
  \<^item> \<open>http_Post\<close>: \<open>Post(url, contentType, body)\<close> of an HTTP client; the flag tells
    whether the client dials through the SOCKS5 proxy.
  \<^item> \<open>json_Marshal\<close>, \<open>json_Decode\<close>, \<open>proxy_SOCKS5\<close> (the error result of building the
    dialer), \<open>url_add_query\<close> (\<open>url.Parse\<close>, then \<open>Query().Add\<close> for each pair,
    \<open>Encode\<close> and \<open>String\<close>; it fails when \<open>url.Parse\<close> does), \<open>time_Format\<close>
    (\<open>t.Format(layout)\<close>) and \<open>fmt_v\<close> (the verb \<open>%v\<close> on an entry of a decoded map).
\<close>

record env =
  Now :: "nat \<Rightarrow> time"
  whois_QueryDomain :: "nat \<Rightarrow> string \<Rightarrow> error + DomainInfo"
  db_Find_err :: "nat \<Rightarrow> error option"
  db_Save_err :: "nat \<Rightarrow> domain \<Rightarrow> error option"
  db_Create_err :: "nat \<Rightarrow> notification \<Rightarrow> error option"

  smtp_SendMail :: "nat \<Rightarrow> string \<Rightarrow> plain_auth \<Rightarrow> string \<Rightarrow> string list \<Rightarrow> string \<Rightarrow> error option"
  http_Post :: "nat \<Rightarrow> bool \<Rightarrow> string \<Rightarrow> string \<Rightarrow> string \<Rightarrow> error + http_response"
  json_Marshal :: "json \<Rightarrow> error + string"
  json_Decode :: "string \<Rightarrow> error + (string \<rightharpoonup> json)"
  proxy_SOCKS5 :: "error option"
  url_add_query :: "string \<Rightarrow> (string \<times> string) list \<Rightarrow> error + string"
  time_Format :: "string \<Rightarrow> time \<Rightarrow> string"
  fmt_v :: "json option \<Rightarrow> string"

text \<open>What the program does to the outside, in order: the calls it makes and the lines
  it hands to \<open>log.Printf\<close>. \<open>Sent n d r\<close> records that \<open>Send\<close> was called on the
  notifier \<open>n\<close> with the day count \<open>d\<close> and returned \<open>r\<close>; \<open>DbCreate c r\<close> records that
  \<open>db.Create\<close> was called with the row \<open>c\<close> and that the database answered \<open>r\<close>. The
  console output of \<open>fmt.Printf\<close> is not part of the model.\<close>

datatype event =
    WhoisQuery string
  | DbFind
  | DbSave domain
  | DbCreate notification "error option"
  | SmtpSendMail string plain_auth string "string list" string
  | HttpPost bool string string string
  | Sent notifier int "error option"
  | LogPrintf string

record world =
  ticks :: nat
  trace :: "event list"
  tbl_domains :: "domain list"
  tbl_notifications :: "notification list"

definition tick :: "world \<Rightarrow> world" where
  "tick w = w\<lparr>ticks := Suc (ticks w)\<rparr>"

definition emit :: "event \<Rightarrow> world \<Rightarrow> world" where
  "emit e w = w\<lparr>trace := trace w @ [e]\<rparr>"

text \<open>\<open>db.Save(domain)\<close> writes all fields of the row with the key of \<open>domain\<close>;
  the rows handled here come from the table and carry their key.\<close>

fun save_row :: "domain \<Rightarrow> domain list \<Rightarrow> domain list" where
  "save_row d [] = [d]"
| "save_row d (r # rs) = (if ID r = ID d then d # rs else r # save_row d rs)"

fun find_row :: "nat \<Rightarrow> domain list \<Rightarrow> domain option" where
  "find_row k [] = None"
| "find_row k (r # rs) = (if ID r = k then Some r else find_row k rs)"

section \<open>Channel senders (\<open>notify.go\<close>)\<close>

text \<open>The fixed parts of the message templates, as the UTF-8 bytes of the source.\<close>

definition email_subject_0 :: string where
  "email_subject_0 = [CHR 0xE5, CHR 0x9F, CHR 0x9F, CHR 0xE5, CHR 0x90, CHR 0x8D, CHR 0xE5,
     CHR 0x88, CHR 0xB0, CHR 0xE6, CHR 0x9C, CHR 0x9F, CHR 0xE6, CHR 0x8F, CHR 0x90, CHR
     0xE9, CHR 0x86, CHR 0x92, CHR 0xEF, CHR 0xBC, CHR 0x9A]"

definition email_subject_1 :: string where
  "email_subject_1 = '' '' @ [CHR 0xE8, CHR 0xBF, CHR 0x98, CHR 0xE6, CHR 0x9C, CHR 0x89] @
     '' ''"

definition email_subject_2 :: string where
  "email_subject_2 = '' '' @ [CHR 0xE5, CHR 0xA4, CHR 0xA9, CHR 0xE5, CHR 0x88, CHR 0xB0,
     CHR 0xE6, CHR 0x9C, CHR 0x9F]"

definition email_body_0 :: string where
  "email_body_0 = [CHR 0x0A, CHR 0xE5, CHR 0x9F, CHR 0x9F, CHR 0xE5, CHR 0x90, CHR 0x8D,
     CHR 0xE5, CHR 0x88, CHR 0xB0, CHR 0xE6, CHR 0x9C, CHR 0x9F, CHR 0xE6, CHR 0x8F, CHR
     0x90, CHR 0xE9, CHR 0x86, CHR 0x92, CHR 0x0A, CHR 0x0A, CHR 0xE7, CHR 0x8A, CHR 0xB6,
     CHR 0xE6, CHR 0x80, CHR 0x81, CHR 0xEF, CHR 0xBC, CHR 0x9A]"

definition email_body_1 :: string where
  "email_body_1 = [CHR 0x0A, CHR 0xE5, CHR 0x9F, CHR 0x9F, CHR 0xE5, CHR 0x90, CHR 0x8D,
     CHR 0xEF, CHR 0xBC, CHR 0x9A]"

definition email_body_2 :: string where
  "email_body_2 = [CHR 0x0A, CHR 0xE5, CHR 0x89, CHR 0xA9, CHR 0xE4, CHR 0xBD, CHR 0x99,
     CHR 0xE5, CHR 0xA4, CHR 0xA9, CHR 0xE6, CHR 0x95, CHR 0xB0, CHR 0xEF, CHR 0xBC, CHR
     0x9A]"

definition email_body_3 :: string where
  "email_body_3 = '' '' @ [CHR 0xE5, CHR 0xA4, CHR 0xA9, CHR 0x0A, CHR 0xE5, CHR 0x88, CHR
     0xB0, CHR 0xE6, CHR 0x9C, CHR 0x9F, CHR 0xE6, CHR 0x97, CHR 0xA5, CHR 0xE6, CHR 0x9C,
     CHR 0x9F, CHR 0xEF, CHR 0xBC, CHR 0x9A]"

definition email_body_4 :: string where
  "email_body_4 = [CHR 0x0A, CHR 0xE6, CHR 0xB3, CHR 0xA8, CHR 0xE5, CHR 0x86, CHR 0x8C,
     CHR 0xE5, CHR 0x95, CHR 0x86, CHR 0xEF, CHR 0xBC, CHR 0x9A]"

definition email_body_5 :: string where
  "email_body_5 = [CHR 0x0A, CHR 0xE5, CHR 0x9F, CHR 0x9F, CHR 0xE5, CHR 0x90, CHR 0x8D,
     CHR 0xE7, CHR 0x8A, CHR 0xB6, CHR 0xE6, CHR 0x80, CHR 0x81, CHR 0xEF, CHR 0xBC, CHR
     0x9A]"

definition email_body_6 :: string where
  "email_body_6 = [CHR 0x0A, CHR 0xE6, CHR 0x9C, CHR 0x80, CHR 0xE5, CHR 0x90, CHR 0x8E,
     CHR 0xE6, CHR 0xA3, CHR 0x80, CHR 0xE6, CHR 0x9F, CHR 0xA5, CHR 0xEF, CHR 0xBC, CHR
     0x9A]"

definition email_body_7 :: string where
  "email_body_7 = [CHR 0x0A, CHR 0x0A, CHR 0xE8, CHR 0xAF, CHR 0xB7, CHR 0xE5, CHR 0x8F,
     CHR 0x8A, CHR 0xE6, CHR 0x97, CHR 0xB6, CHR 0xE7, CHR 0xBB, CHR 0xAD, CHR 0xE8, CHR
     0xB4, CHR 0xB9, CHR 0xE4, CHR 0xBB, CHR 0xA5, CHR 0xE9, CHR 0x81, CHR 0xBF, CHR 0xE5,
     CHR 0x85, CHR 0x8D, CHR 0xE5, CHR 0x9F, CHR 0x9F, CHR 0xE5, CHR 0x90, CHR 0x8D, CHR
     0xE8, CHR 0xBF, CHR 0x87, CHR 0xE6, CHR 0x9C, CHR 0x9F, CHR 0xEF, CHR 0xBC, CHR 0x81,
     CHR 0x0A]"

definition telegram_text_0 :: string where
  "telegram_text_0 = [CHR 0xE2, CHR 0x9A, CHR 0xA0, CHR 0xEF, CHR 0xB8, CHR 0x8F] @ '' '' @
     [CHR 0xE5, CHR 0x9F, CHR 0x9F, CHR 0xE5, CHR 0x90, CHR 0x8D, CHR 0xE5, CHR 0x88, CHR
     0xB0, CHR 0xE6, CHR 0x9C, CHR 0x9F, CHR 0xE6, CHR 0x8F, CHR 0x90, CHR 0xE9, CHR 0x86,
     CHR 0x92, CHR 0x0A, CHR 0x0A] @ ''Domain: ''"

definition telegram_text_1 :: string where
  "telegram_text_1 = [CHR 0x0A, CHR 0xE5, CHR 0x89, CHR 0xA9, CHR 0xE4, CHR 0xBD, CHR 0x99,
     CHR 0xE5, CHR 0xA4, CHR 0xA9, CHR 0xE6, CHR 0x95, CHR 0xB0] @ '': ''"

definition telegram_text_2 :: string where
  "telegram_text_2 = [CHR 0x0A, CHR 0xE5, CHR 0x88, CHR 0xB0, CHR 0xE6, CHR 0x9C, CHR 0x9F,
     CHR 0xE6, CHR 0x97, CHR 0xA5] @ '': ''"

definition telegram_text_3 :: string where
  "telegram_text_3 = [CHR 0x0A, CHR 0xE6, CHR 0xB3, CHR 0xA8, CHR 0xE5, CHR 0x86, CHR 0x8C,
     CHR 0xE5, CHR 0x95, CHR 0x86] @ '': ''"

definition dingding_text_0 :: string where
  "dingding_text_0 = ''## ''"

definition dingding_text_1 :: string where
  "dingding_text_1 = '' '' @ [CHR 0xE5, CHR 0x9F, CHR 0x9F, CHR 0xE5, CHR 0x90, CHR 0x8D,
     CHR 0xE5, CHR 0x88, CHR 0xB0, CHR 0xE6, CHR 0x9C, CHR 0x9F, CHR 0xE6, CHR 0x8F, CHR
     0x90, CHR 0xE9, CHR 0x86, CHR 0x92, CHR 0x0A, CHR 0x0A] @ ''**'' @ [CHR 0xE5, CHR
     0x9F, CHR 0x9F, CHR 0xE5, CHR 0x90, CHR 0x8D] @ ''**: ''"

definition dingding_text_2 :: string where
  "dingding_text_2 = [CHR 0x0A, CHR 0x0A] @ ''**'' @ [CHR 0xE5, CHR 0x89, CHR 0xA9, CHR
     0xE4, CHR 0xBD, CHR 0x99, CHR 0xE5, CHR 0xA4, CHR 0xA9, CHR 0xE6, CHR 0x95, CHR 0xB0]
     @ ''**: ''"

definition dingding_text_3 :: string where
  "dingding_text_3 = '' '' @ [CHR 0xE5, CHR 0xA4, CHR 0xA9, CHR 0x0A, CHR 0x0A] @ ''**'' @
     [CHR 0xE5, CHR 0x88, CHR 0xB0, CHR 0xE6, CHR 0x9C, CHR 0x9F, CHR 0xE6, CHR 0x97, CHR
     0xA5, CHR 0xE6, CHR 0x9C, CHR 0x9F] @ ''**: ''"

definition dingding_text_4 :: string where
  "dingding_text_4 = [CHR 0x0A, CHR 0x0A] @ ''**'' @ [CHR 0xE6, CHR 0xB3, CHR 0xA8, CHR
     0xE5, CHR 0x86, CHR 0x8C, CHR 0xE5, CHR 0x95, CHR 0x86] @ ''**: ''"

definition dingding_text_5 :: string where
  "dingding_text_5 = [CHR 0x0A, CHR 0x0A] @ ''**'' @ [CHR 0xE7, CHR 0x8A, CHR 0xB6, CHR
     0xE6, CHR 0x80, CHR 0x81] @ ''**: ''"

definition email_critical :: string where
  "email_critical = [CHR 0xF0, CHR 0x9F, CHR 0x94, CHR 0xB4] @ '' '' @ [CHR 0xE7, CHR 0xB4,
     CHR 0xA7, CHR 0xE6, CHR 0x80, CHR 0xA5]"

definition email_warning :: string where
  "email_warning = [CHR 0xF0, CHR 0x9F, CHR 0x9F, CHR 0xA1] @ '' '' @ [CHR 0xE8, CHR 0xAD,
     CHR 0xA6, CHR 0xE5, CHR 0x91, CHR 0x8A]"

definition email_normal :: string where
  "email_normal = [CHR 0xF0, CHR 0x9F, CHR 0x9F, CHR 0xA2] @ '' '' @ [CHR 0xE6, CHR 0xAD,
     CHR 0xA3, CHR 0xE5, CHR 0xB8, CHR 0xB8]"

definition dingding_critical :: string where
  "dingding_critical = [CHR 0xF0, CHR 0x9F, CHR 0x94, CHR 0xB4]"

definition dingding_warning :: string where
  "dingding_warning = [CHR 0xF0, CHR 0x9F, CHR 0x9F, CHR 0xA1]"

definition dingding_normal :: string where
  "dingding_normal = [CHR 0xF0, CHR 0x9F, CHR 0x9F, CHR 0xA2]"

definition dingding_title :: string where
  "dingding_title = [CHR 0xE5, CHR 0x9F, CHR 0x9F, CHR 0xE5, CHR 0x90, CHR 0x8D, CHR 0xE5,
     CHR 0x88, CHR 0xB0, CHR 0xE6, CHR 0x9C, CHR 0x9F, CHR 0xE6, CHR 0x8F, CHR 0x90, CHR
     0xE9, CHR 0x86, CHR 0x92]"


definition crlf :: string where
  "crlf = [CHR 0x0D, CHR 0x0A]"

text \<open>\<open>EmailNotifier.Send\<close>. The body is rendered with one reading of the clock; then
  the message goes to \<open>smtp.SendMail\<close>.\<close>

definition email_subject :: "domain \<Rightarrow> int \<Rightarrow> string" where
  "email_subject domain daysRemaining =
     email_subject_0 @ Name domain @ email_subject_1 @ itoa daysRemaining @ email_subject_2"

definition email_body :: "env \<Rightarrow> domain \<Rightarrow> int \<Rightarrow> time \<Rightarrow> string" where
  "email_body env domain daysRemaining now =
     (let statusEmoji = (if daysRemaining \<le> 7 then email_critical
                         else if daysRemaining \<le> 30 then email_warning else email_normal)
      in email_body_0 @ statusEmoji @ email_body_1 @ Name domain @ email_body_2
         @ itoa daysRemaining @ email_body_3
         @ time_Format env ''2006-01-02'' (ExpiryDate domain) @ email_body_4
         @ Registrar domain @ email_body_5 @ Status domain @ email_body_6
         @ time_Format env ''2006-01-02 15:04:05'' now @ email_body_7)"

definition email_message :: "EmailConfig \<Rightarrow> string \<Rightarrow> string \<Rightarrow> string" where
  "email_message config subject body =
     ''From: '' @ From config @ crlf
     @ ''To: '' @ Join (To config) '','' @ crlf
     @ ''Subject: '' @ subject @ crlf
     @ ''Content-Type: text/plain; charset=UTF-8'' @ crlf
     @ crlf
     @ body"

definition EmailNotifier_Send ::
  "env \<Rightarrow> EmailConfig \<Rightarrow> domain \<Rightarrow> int \<Rightarrow> world \<Rightarrow> error option \<times> world" where
  "EmailNotifier_Send env config domain daysRemaining w =
     (let subject = email_subject domain daysRemaining;
          body = email_body env domain daysRemaining (Now env (ticks w));
          w1 = tick w;
          message = email_message config subject body;
          auth = ('''', From config, Password config, SMTPHost config);
          addr = SMTPHost config @ '':'' @ itoa (SMTPPort config);
          err = smtp_SendMail env (ticks w1) addr auth (From config) (To config) message;
          w2 = emit (SmtpSendMail addr auth (From config) (To config) message) (tick w1)
      in case err of
           Some e \<Rightarrow>
             if \<not> Contains (Error e) ''short response''
             then (Some (Errorf_w ''failed to send email: '' e), w2)
             else (None, w2)
         | None \<Rightarrow> (None, w2))"

text \<open>\<open>WebhookNotifier.Send\<close>.\<close>

definition webhook_payload :: "env \<Rightarrow> domain \<Rightarrow> int \<Rightarrow> json" where
  "webhook_payload env domain daysRemaining =
     JObject [(''domain'', JString (Name domain)),
              (''days_remaining'', JInt daysRemaining),
              (''expiry_date'', JString (time_Format env ''2006-01-02'' (ExpiryDate domain))),
              (''registrar'', JString (Registrar domain)),
              (''status'', JString (Status domain))]"

definition WebhookNotifier_Send ::
  "env \<Rightarrow> WebhookConfig \<Rightarrow> domain \<Rightarrow> int \<Rightarrow> world \<Rightarrow> error option \<times> world" where
  "WebhookNotifier_Send env config domain daysRemaining w =
     (case json_Marshal env (webhook_payload env domain daysRemaining) of
        Inl err \<Rightarrow> (Some err, w)
      | Inr jsonData \<Rightarrow>
          (let w1 = emit (HttpPost False (URL config) ''application/json'' jsonData) (tick w)
           in case http_Post env (ticks w) False (URL config) ''application/json'' jsonData of
                Inl err \<Rightarrow> (Some err, w1)
              | Inr resp \<Rightarrow>
                  if StatusCode resp \<noteq> 200
                  then (Some (ErrorString (''webhook returned status '' @ itoa (StatusCode resp))), w1)
                  else (None, w1)))"

text \<open>\<open>TelegramNotifier.Send\<close>. When the SOCKS5 dialer cannot be built the client
  connects directly.\<close>

definition telegram_message :: "env \<Rightarrow> domain \<Rightarrow> int \<Rightarrow> string" where
  "telegram_message env domain daysRemaining =
     telegram_text_0 @ Name domain @ telegram_text_1 @ itoa daysRemaining @ telegram_text_2
     @ time_Format env ''2006-01-02'' (ExpiryDate domain) @ telegram_text_3 @ Registrar domain"

definition TelegramNotifier_Send ::
  "env \<Rightarrow> TelegramConfig \<Rightarrow> domain \<Rightarrow> int \<Rightarrow> world \<Rightarrow> error option \<times> world" where
  "TelegramNotifier_Send env config domain daysRemaining w =
     (let message = telegram_message env domain daysRemaining;
          apiURL = ''https://api.telegram.org/bot'' @ BotToken config @ ''/sendMessage'';
          payload = JObject [(''chat_id'', JString (ChatID config)), (''text'', JString message)]
      in case json_Marshal env payload of
           Inl err \<Rightarrow> (Some err, w)
         | Inr jsonData \<Rightarrow>
             (let via_proxy = (proxy_SOCKS5 env = None);
                  w1 = emit (HttpPost via_proxy apiURL ''application/json'' jsonData) (tick w)
              in case http_Post env (ticks w) via_proxy apiURL ''application/json'' jsonData of
                   Inl err \<Rightarrow> (Some err, w1)
                 | Inr resp \<Rightarrow>
                     if StatusCode resp \<noteq> 200
                     then (Some (ErrorString (''telegram API returned status ''
                                  @ itoa (StatusCode resp))), w1)
                     else (None, w1)))"

text \<open>\<open>DingDingNotifier.Send\<close>. With a secret, the URL gets the query parameters
  \<open>timestamp\<close> and \<open>sign\<close>; a body that decodes to a map with a non-zero number under
  \<open>errcode\<close> is an error although the status is 200.\<close>

definition dingding_message :: "env \<Rightarrow> domain \<Rightarrow> int \<Rightarrow> string" where
  "dingding_message env domain daysRemaining =
     (let statusEmoji = (if daysRemaining \<le> 7 then dingding_critical
                         else if daysRemaining \<le> 30 then dingding_warning else dingding_normal)
      in dingding_text_0 @ statusEmoji @ dingding_text_1 @ Name domain @ dingding_text_2
         @ itoa daysRemaining @ dingding_text_3
         @ time_Format env ''2006-01-02'' (ExpiryDate domain) @ dingding_text_4
         @ Registrar domain @ dingding_text_5 @ Status domain)"

definition dingding_post ::
  "env \<Rightarrow> string \<Rightarrow> string \<Rightarrow> world \<Rightarrow> error option \<times> world" where
  "dingding_post env webhookURL jsonData w =
     (let w1 = emit (HttpPost False webhookURL ''application/json'' jsonData) (tick w)
      in case http_Post env (ticks w) False webhookURL ''application/json'' jsonData of
           Inl err \<Rightarrow> (Some err, w1)
         | Inr resp \<Rightarrow>
             if StatusCode resp \<noteq> 200
             then (Some (ErrorString (''dingding webhook returned status ''
                          @ itoa (StatusCode resp))), w1)
             else (case json_Decode env (Body resp) of
                     Inl _ \<Rightarrow> (None, w1)
                   | Inr result \<Rightarrow>
                       (case result ''errcode'' of
                          Some (JFloat errCode) \<Rightarrow>
                            if errCode \<noteq> 0
                            then (Some (ErrorString (''dingding API error: ''
                                         @ fmt_v env (result ''errmsg''))), w1)
                            else (None, w1)
                        | _ \<Rightarrow> (None, w1))))"

definition DingDingNotifier_Send ::
  "env \<Rightarrow> DingDingConfig \<Rightarrow> domain \<Rightarrow> int \<Rightarrow> world \<Rightarrow> error option \<times> world" where
  "DingDingNotifier_Send env config domain daysRemaining w =
     (let message = dingding_message env domain daysRemaining;
          payload = JObject [(''msgtype'', JString ''markdown''),
                             (''markdown'', JObject [(''title'', JString dingding_title),
                                                     (''text'', JString message)])]
      in case json_Marshal env payload of
           Inl err \<Rightarrow> (Some err, w)
         | Inr jsonData \<Rightarrow>
             if Secret config \<noteq> []
             then (let timestamp = itoa (UnixMilli (Now env (ticks w)));
                       w1 = tick w;
                       sign = generateSign timestamp (Secret config)
                   in case url_add_query env (Webhook config)
                             [(''timestamp'', timestamp), (''sign'', sign)] of
                        Inl err \<Rightarrow> (Some (Errorf_w ''invalid webhook URL: '' err), w1)
                      | Inr webhookURL \<Rightarrow> dingding_post env webhookURL jsonData w1)
             else dingding_post env (Webhook config) jsonData w)"

text \<open>The method call \<open>notifier.Send(domain, daysRemaining)\<close>.\<close>

fun Send :: "env \<Rightarrow> notifier \<Rightarrow> domain \<Rightarrow> int \<Rightarrow> world \<Rightarrow> error option \<times> world" where
  "Send env (EmailNotifier c) domain daysRemaining w = EmailNotifier_Send env c domain daysRemaining w"
| "Send env (WebhookNotifier c) domain daysRemaining w = WebhookNotifier_Send env c domain daysRemaining w"
| "Send env (TelegramNotifier c) domain daysRemaining w = TelegramNotifier_Send env c domain daysRemaining w"
| "Send env (DingDingNotifier c) domain daysRemaining w = DingDingNotifier_Send env c domain daysRemaining w"

section \<open>Notification dispatcher (\<open>NotifyService\<close>)\<close>

definition NewNotifyService :: "NotificationsConfig \<Rightarrow> NotifyService" where
  "NewNotifyService cfg =
     \<lparr>notifiers =
        (if email_Enabled (cfg_Email cfg) then [EmailNotifier (cfg_Email cfg)] else [])
        @ (if webhook_Enabled (cfg_Webhook cfg) then [WebhookNotifier (cfg_Webhook cfg)] else [])
        @ (if telegram_Enabled (cfg_Telegram cfg) then [TelegramNotifier (cfg_Telegram cfg)] else [])
        @ (if dingding_Enabled (cfg_DingDing cfg) then [DingDingNotifier (cfg_DingDing cfg)] else [])\<rparr>"

text \<open>\<open>recordNotification\<close>: the row is handed to \<open>db.Create\<close>, whose result the
  source discards: a row that the database refuses is not in the table, and nobody is
  told.\<close>

definition recordNotification :: "env \<Rightarrow> domain \<Rightarrow> notifier \<Rightarrow> string \<Rightarrow> world \<Rightarrow> world" where
  "recordNotification env domain notifier status w =
     (let notification =
            \<lparr>n_DomainID = ID domain,
             n_Type = type_name notifier,
             n_Content = ''Domain '' @ Name domain @ '' expires in ''
                          @ itoa (DaysRemaining domain) @ '' days'',
             n_Status = status,
             n_SentAt = Now env (ticks w)\<rparr>;
          w1 = tick w;
          result = db_Create_err env (ticks w1) notification;
          w2 = emit (DbCreate notification result) (tick w1)
      in case result of
           Some _ \<Rightarrow> w2
         | None \<Rightarrow> w2\<lparr>tbl_notifications := tbl_notifications w2 @ [notification]\<rparr>)"

text \<open>The loop of \<open>SendNotification\<close> over \<open>s.notifiers\<close>, carrying \<open>lastErr\<close> and
  \<open>successCount\<close>.\<close>

fun SendNotification_loop ::
  "env \<Rightarrow> domain \<Rightarrow> int \<Rightarrow> notifier list \<Rightarrow> error option \<times> nat \<times> world
     \<Rightarrow> error option \<times> nat \<times> world" where
  "SendNotification_loop env domain daysRemaining [] acc = acc"
| "SendNotification_loop env domain daysRemaining (notifier # rest) (lastErr, successCount, w) =
     (case Send env notifier domain daysRemaining w of
        (Some err, w1) \<Rightarrow>
          SendNotification_loop env domain daysRemaining rest
            (Some err, successCount,
             recordNotification env domain notifier ''failed''
               (emit (Sent notifier daysRemaining (Some err)) w1))
      | (None, w1) \<Rightarrow>
          SendNotification_loop env domain daysRemaining rest
            (lastErr, successCount + 1,
             recordNotification env domain notifier ''success''
               (emit (Sent notifier daysRemaining None) w1)))"

definition SendNotification ::
  "env \<Rightarrow> NotifyService \<Rightarrow> domain \<Rightarrow> int \<Rightarrow> world \<Rightarrow> error option \<times> world" where
  "SendNotification env s domain daysRemaining w =
     (case SendNotification_loop env domain daysRemaining (notifiers s) (None, 0, w) of
        (lastErr, successCount, w') \<Rightarrow>
          if successCount > 0 \<and> lastErr \<noteq> None then (None, w') else (lastErr, w'))"

section \<open>Monitor engine (\<open>MonitorService\<close>)\<close>

definition NewMonitorService :: "NotifyService option \<Rightarrow> int list \<Rightarrow> MonitorService" where
  "NewMonitorService notifyService' alertDays' =
     \<lparr>notifyService = notifyService', alertDays = alertDays'\<rparr>"

text \<open>The loop of \<open>CheckAndNotify\<close> over \<open>s.alertDays\<close>; it ends at the first match.\<close>

fun CheckAndNotify_loop :: "env \<Rightarrow> NotifyService \<Rightarrow> domain \<Rightarrow> int list \<Rightarrow> world \<Rightarrow> world" where
  "CheckAndNotify_loop env ns domain [] w = w"
| "CheckAndNotify_loop env ns domain (threshold # rest) w =
     (if DaysRemaining domain = threshold
      then (let w1 = emit (LogPrintf (''Sending notification for domain '' @ Name domain
                             @ '' ('' @ itoa (DaysRemaining domain) @ '' days remaining)'')) w
            in case SendNotification env ns domain threshold w1 of
                 (Some err, w2) \<Rightarrow>
                   emit (LogPrintf (''Failed to send notification for '' @ Name domain
                           @ '': '' @ Error err)) w2
               | (None, w2) \<Rightarrow> w2)
      else CheckAndNotify_loop env ns domain rest w)"

definition CheckAndNotify :: "env \<Rightarrow> MonitorService \<Rightarrow> domain \<Rightarrow> world \<Rightarrow> world" where
  "CheckAndNotify env s domain w =
     (case notifyService s of
        None \<Rightarrow> w
      | Some ns \<Rightarrow> CheckAndNotify_loop env ns domain (alertDays s) w)"

text \<open>\<open>CheckDomain\<close> works on a pointer: the record it leaves behind is the second
  component of the result.\<close>

definition CheckDomain ::
  "env \<Rightarrow> MonitorService \<Rightarrow> domain \<Rightarrow> world \<Rightarrow> error option \<times> domain \<times> world" where
  "CheckDomain env s domain w =
     (let w1 = emit (WhoisQuery (Name domain)) (tick w)
      in case whois_QueryDomain env (ticks w) (Name domain) of
           Inl err \<Rightarrow> (Some (Errorf_w ''WHOIS query failed: '' err), domain, w1)
         | Inr info \<Rightarrow>
             (let d1 = domain\<lparr>Registrar := i_Registrar info,
                               ExpiryDate := i_ExpiryDate info,
                               CreatedDate := i_CreatedDate info,
                               UpdatedDate := i_UpdatedDate info,
                               Status := i_Status info,
                               LastChecked := Now env (ticks w1)\<rparr>;
                  w2 = tick w1;
                  d2 = (if \<not> IsZero (i_ExpiryDate info)
                        then d1\<lparr>DaysRemaining :=
                                  go_int (f64 (Hours (Until (i_ExpiryDate info)
                                                        (Now env (ticks w2))) / 24))\<rparr>
                        else d1);
                  w3 = (if \<not> IsZero (i_ExpiryDate info) then tick w2 else w2);
                  w4 = emit (DbSave d2) (tick w3)
              in case db_Save_err env (ticks w3) d2 of
                   Some err \<Rightarrow> (Some (Errorf_w ''failed to save domain: '' err), d2, w4)
                 | None \<Rightarrow>
                     (let w5 = w4\<lparr>tbl_domains := save_row d2 (tbl_domains w4)\<rparr>;
                          w6 = emit (LogPrintf (''Updated domain '' @ Name d2 @ '': ''
                                       @ itoa (DaysRemaining d2) @ '' days remaining'')) w5
                      in (None, d2, CheckAndNotify env s d2 w6))))"

text \<open>The loop of \<open>CheckAllDomains\<close>: each iteration works on a copy of the row.\<close>

fun CheckAllDomains_loop :: "env \<Rightarrow> MonitorService \<Rightarrow> domain list \<Rightarrow> world \<Rightarrow> world" where
  "CheckAllDomains_loop env s [] w = w"
| "CheckAllDomains_loop env s (domain # rest) w =
     (case CheckDomain env s domain w of
        (Some err, _, w1) \<Rightarrow>
          CheckAllDomains_loop env s rest
            (emit (LogPrintf (''Error checking domain '' @ Name domain @ '': '' @ Error err)) w1)
      | (None, _, w1) \<Rightarrow> CheckAllDomains_loop env s rest w1)"

definition CheckAllDomains :: "env \<Rightarrow> MonitorService \<Rightarrow> world \<Rightarrow> error option \<times> world" where
  "CheckAllDomains env s w =
     (let w1 = emit DbFind (tick w)
      in case db_Find_err env (ticks w) of
           Some err \<Rightarrow> (Some (Errorf_w ''failed to fetch domains: '' err), w1)
         | None \<Rightarrow>
             (let domains = filter IsActive (tbl_domains w1);
                  w2 = emit (LogPrintf (''Checking '' @ itoa (int (length domains))
                               @ '' domains...'')) w1
              in (None, CheckAllDomains_loop env s domains w2)))"

definition TriggerNotification ::
  "env \<Rightarrow> MonitorService \<Rightarrow> domain \<Rightarrow> world \<Rightarrow> error option \<times> world" where
  "TriggerNotification env s domain w =
     (case notifyService s of
        None \<Rightarrow> (Some (ErrorString ''notification service not available''), w)
      | Some ns \<Rightarrow>
          (let w1 = emit (LogPrintf (''Triggering test notification for domain '' @ Name domain
                             @ '' ('' @ itoa (DaysRemaining domain) @ '' days remaining)'')) w
           in SendNotification env ns domain (DaysRemaining domain) w1))"

section \<open>Observations on a run\<close>

text \<open>Projections of the trace used to state what a run did: the calls of \<open>Send\<close>
  with their results, the calls of \<open>db.Create\<close> with their results (\<open>inserts\<close>), the rows
  of these calls (\<open>creates\<close>), the rows that the database accepted (\<open>stored\<close>), and the
  events that belong to a dispatch.\<close>

fun sent_of :: "event \<Rightarrow> (notifier \<times> int \<times> error option) option" where
  "sent_of (Sent nf d r) = Some (nf, d, r)"
| "sent_of _ = None"

fun inserted_of :: "event \<Rightarrow> (notification \<times> error option) option" where
  "inserted_of (DbCreate c r) = Some (c, r)"
| "inserted_of _ = None"

fun is_request :: "event \<Rightarrow> bool" where
  "is_request (SmtpSendMail _ _ _ _ _) = True"
| "is_request (HttpPost _ _ _ _) = True"
| "is_request _ = False"

definition sends :: "event list \<Rightarrow> (notifier \<times> int \<times> error option) list" where
  "sends es = List.map_filter sent_of es"

definition inserts :: "event list \<Rightarrow> (notification \<times> error option) list" where
  "inserts es = List.map_filter inserted_of es"

definition creates :: "event list \<Rightarrow> notification list" where
  "creates es = map fst (inserts es)"

definition stored :: "event list \<Rightarrow> notification list" where
  "stored es = map fst (filter (\<lambda>x. snd x = None) (inserts es))"

definition status_of :: "error option \<Rightarrow> string" where
  "status_of r = (if r = None then ''success'' else ''failed'')"

definition row_key :: "notification \<Rightarrow> nat \<times> string \<times> string \<times> string" where
  "row_key c = (n_DomainID c, n_Type c, n_Content c, n_Status c)"

definition is_dispatch :: "event \<Rightarrow> bool" where
  "is_dispatch e \<longleftrightarrow> sent_of e \<noteq> None \<or> inserted_of e \<noteq> None"

definition audit_content :: "domain \<Rightarrow> string" where
  "audit_content d = ''Domain '' @ Name d @ '' expires in '' @ itoa (DaysRemaining d) @ '' days''"

fun keep_error :: "error option \<Rightarrow> error option \<Rightarrow> error option" where
  "keep_error (Some e) acc = Some e"
| "keep_error None acc = acc"

definition new_events :: "world \<Rightarrow> world \<Rightarrow> event list" where
  "new_events w w' = drop (length (trace w)) (trace w')"

definition results :: "event list \<Rightarrow> error option list" where
  "results es = map (\<lambda>(nf, days, r). r) (sends es)"

section \<open>A sample environment\<close>

text \<open>A concrete environment, record and world on which the theorems below are
  evaluated: the webhook at \<open>down.example\<close> refuses the connection, the one at
  \<open>broken.example\<close> answers 500, the WHOIS service has no answer for
  \<open>down.example\<close> and knows no expiry date of \<open>noexpiry.example\<close>. The SMTP server
  \<open>smtp.quirk.example\<close> ends with the malformed line and \<open>smtp.closed.example\<close>
  rejects the login. The clock stands still, seven days before the expiry date of the
  sample answer.\<close>

definition sample_info :: DomainInfo where
  "sample_info = \<lparr>i_Domain = ''example.com'', i_Registrar = ''Example Registrar'',
     i_ExpiryDate = 63900000000000000000 + 7 * 24 * 3600000000000,
     i_CreatedDate = 63000000000000000000, i_UpdatedDate = 63500000000000000000,
     i_Status = ''ok'', i_NameServers = [], i_RawData = ''{}''\<rparr>"

definition sample_env :: env where
  "sample_env =
     \<lparr>Now = (\<lambda>n. 63900000000000000000),
      whois_QueryDomain = (\<lambda>n name. if name = ''down.example'' then Inl (ErrorString ''timeout'')
                                       else if name = ''noexpiry.example''
                                       then Inr (sample_info\<lparr>i_ExpiryDate := 0\<rparr>)
                                       else Inr sample_info),
      db_Find_err = (\<lambda>n. None),
      db_Save_err = (\<lambda>n d. None),
      db_Create_err = (\<lambda>n c. None),

      smtp_SendMail = (\<lambda>n addr auth sender rcpt msg.
                         if addr = ''smtp.quirk.example:465''
                         then Some (ErrorString ''250 OK: short response'')
                         else if addr = ''smtp.closed.example:25''
                         then Some (ErrorString ''535 authentication failed'')
                         else None),
      http_Post = (\<lambda>n via url ctype body.
                     if url = ''http://down.example/hook'' then Inl (ErrorString ''connection refused'')
                     else if url = ''http://broken.example/hook''
                     then Inr \<lparr>StatusCode = 500, Body = ''''\<rparr>
                     else Inr \<lparr>StatusCode = 200, Body = ''''\<rparr>),
      json_Marshal = (\<lambda>j. Inr ''{}''),
      json_Decode = (\<lambda>b. Inl (ErrorString ''EOF'')),
      proxy_SOCKS5 = None,
      url_add_query = (\<lambda>u q. Inr u),
      time_Format = (\<lambda>layout t. ''2026-01-01''),
      fmt_v = (\<lambda>j. ''<nil>'')\<rparr>"

definition sample_domain :: domain where
  "sample_domain = \<lparr>ID = 1, Name = ''example.com'', Registrar = '''', ExpiryDate = 0,
     CreatedDate = 0, UpdatedDate = 0, Status = '''', DaysRemaining = 7, Tags = '''',
     LastChecked = 0, IsActive = True, CreatedAt = 0, UpdatedAt = 0\<rparr>"

definition sample_world :: world where
  "sample_world = \<lparr>ticks = 0, trace = [], tbl_domains = [sample_domain], tbl_notifications = []\<rparr>"

definition hook_up :: notifier where
  "hook_up = WebhookNotifier \<lparr>webhook_Enabled = True, URL = ''http://up.example/hook''\<rparr>"

definition hook_down :: notifier where
  "hook_down = WebhookNotifier \<lparr>webhook_Enabled = True, URL = ''http://down.example/hook''\<rparr>"

definition hook_broken :: notifier where
  "hook_broken = WebhookNotifier \<lparr>webhook_Enabled = True, URL = ''http://broken.example/hook''\<rparr>"

definition telegram_up :: notifier where
  "telegram_up = TelegramNotifier \<lparr>telegram_Enabled = True, BotToken = ''t'', ChatID = ''c''\<rparr>"

text \<open>What one dispatch from \<open>CheckAndNotify\<close> does: the log line, the call of
  \<open>SendNotification\<close> with the day count of the record, and the log line of a failure.\<close>

definition dispatch_once :: "env \<Rightarrow> NotifyService \<Rightarrow> domain \<Rightarrow> world \<Rightarrow> world" where
  "dispatch_once env ns domain w =
     (let w1 = emit (LogPrintf (''Sending notification for domain '' @ Name domain
                       @ '' ('' @ itoa (DaysRemaining domain) @ '' days remaining)'')) w
      in case SendNotification env ns domain (DaysRemaining domain) w1 of
           (Some err, w2) \<Rightarrow>
             emit (LogPrintf (''Failed to send notification for '' @ Name domain
                     @ '': '' @ Error err)) w2
         | (None, w2) \<Rightarrow> w2)"

definition sample_notify :: NotifyService where
  "sample_notify = \<lparr>notifiers = [hook_up, hook_down]\<rparr>"

definition sample_monitor :: MonitorService where
  "sample_monitor = \<lparr>notifyService = Some sample_notify, alertDays = [30, 7, 1]\<rparr>"

definition is_digit :: "char \<Rightarrow> bool" where
  "is_digit c \<longleftrightarrow> c \<in> set ''0123456789''"

definition mail_to :: "string \<Rightarrow> int \<Rightarrow> EmailConfig" where
  "mail_to host port = \<lparr>email_Enabled = True, SMTPHost = host, SMTPPort = port,
     From = ''monitor@example.com'', Password = ''secret'', To = [''ops@example.com'']\<rparr>"

definition stops :: "string \<Rightarrow> bool" where
  "stops x \<longleftrightarrow> (case x of [] \<Rightarrow> True | c # _ \<Rightarrow> \<not> is_digit c \<and> c \<noteq> CHR ''-'')"

section \<open>Properties of the dispatcher\<close>

lemma sends_Nil [simp]: "sends [] = []"
  by (simp add: sends_def map_filter_def)

lemma sends_Cons [simp]:
  "sends (e # es) = (case sent_of e of Some x \<Rightarrow> x # sends es | None \<Rightarrow> sends es)"
  by (simp add: sends_def map_filter_def split: option.splits)

lemma sends_append [simp]: "sends (a @ b) = sends a @ sends b"
  by (simp add: sends_def map_filter_def)

lemma inserts_Nil [simp]: "inserts [] = []"
  by (simp add: inserts_def map_filter_def)

lemma inserts_Cons [simp]:
  "inserts (e # es) = (case inserted_of e of Some x \<Rightarrow> x # inserts es | None \<Rightarrow> inserts es)"
  by (simp add: inserts_def map_filter_def split: option.splits)

lemma inserts_append [simp]: "inserts (a @ b) = inserts a @ inserts b"
  by (simp add: inserts_def map_filter_def)

lemma creates_Nil [simp]: "creates [] = []"
  by (simp add: creates_def)

lemma creates_Cons [simp]:
  "creates (e # es) = (case inserted_of e of Some x \<Rightarrow> fst x # creates es | None \<Rightarrow> creates es)"
  by (simp add: creates_def split: option.splits)

lemma creates_append [simp]: "creates (a @ b) = creates a @ creates b"
  by (simp add: creates_def)

lemma stored_Nil [simp]: "stored [] = []"
  by (simp add: stored_def)

lemma stored_append [simp]: "stored (a @ b) = stored a @ stored b"
  by (simp add: stored_def)

lemma stored_Cons [simp]:
  "stored (e # es) =
     (case inserted_of e of
        Some x \<Rightarrow> if snd x = None then fst x # stored es else stored es
      | None \<Rightarrow> stored es)"
  by (simp add: stored_def split: option.splits)

lemma stored_accepted:
  "\<forall>x \<in> set (inserts es). snd x = None \<Longrightarrow> stored es = creates es"
  by (simp add: stored_def creates_def)

lemma sends_requests: "list_all is_request es \<Longrightarrow> sends es = []"
  by (induction es) (auto elim: is_request.elims)

lemma inserts_requests: "list_all is_request es \<Longrightarrow> inserts es = []"
  by (induction es) (auto elim: is_request.elims)

lemma creates_requests: "list_all is_request es \<Longrightarrow> creates es = []"
  by (simp add: creates_def inserts_requests)

lemma stored_requests: "list_all is_request es \<Longrightarrow> stored es = []"
  by (simp add: stored_def inserts_requests)

lemma dingding_post_effect:
  "\<exists>es. trace (snd (dingding_post env u j w)) = trace w @ es \<and> list_all is_request es
     \<and> tbl_notifications (snd (dingding_post env u j w)) = tbl_notifications w
     \<and> tbl_domains (snd (dingding_post env u j w)) = tbl_domains w"
  by (auto simp: dingding_post_def Let_def emit_def tick_def split: sum.splits option.splits json.splits)

lemma Send_effect:
  "\<exists>es. trace (snd (Send env nf d n w)) = trace w @ es \<and> list_all is_request es
     \<and> tbl_notifications (snd (Send env nf d n w)) = tbl_notifications w
     \<and> tbl_domains (snd (Send env nf d n w)) = tbl_domains w"
proof (cases nf)
  case (EmailNotifier c)
  then show ?thesis
    by (auto simp: EmailNotifier_Send_def Let_def emit_def tick_def split: option.splits)
next
  case (WebhookNotifier c)
  then show ?thesis
    by (auto simp: WebhookNotifier_Send_def Let_def emit_def tick_def split: sum.splits)
next
  case (TelegramNotifier c)
  then show ?thesis
    by (auto simp: TelegramNotifier_Send_def Let_def emit_def tick_def split: sum.splits)
next
  case (DingDingNotifier c)
  show ?thesis
  proof (cases "json_Marshal env (JObject [(''msgtype'', JString ''markdown''),
                             (''markdown'', JObject [(''title'', JString dingding_title),
                                                     (''text'', JString (dingding_message env d n))])])")
    case (Inl e)
    then show ?thesis using DingDingNotifier by (simp add: DingDingNotifier_Send_def Let_def)
  next
    case (Inr j)
    show ?thesis
    proof (cases "Secret c = []")
      case True
      then show ?thesis using DingDingNotifier Inr dingding_post_effect [of env "Webhook c" j w]
        by (simp add: DingDingNotifier_Send_def Let_def)
    next
      case False
      show ?thesis
      proof (cases "url_add_query env (Webhook c) [(''timestamp'', itoa (UnixMilli (Now env (ticks w)))), (''sign'', generateSign (itoa (UnixMilli (Now env (ticks w)))) (Secret c))]")
        case (Inl e)
        then show ?thesis using DingDingNotifier Inr False
          by (simp add: DingDingNotifier_Send_def Let_def tick_def)
      next
        case (Inr u)
        then show ?thesis using DingDingNotifier \<open>json_Marshal env _ = Inr j\<close> False
            dingding_post_effect [of env u j "tick w"]
          by (simp add: DingDingNotifier_Send_def Let_def tick_def)
      qed
    qed
  qed
qed


lemma dispatch_requests: "list_all is_request es \<Longrightarrow> filter is_dispatch es = []"
  by (induction es) (auto simp: is_dispatch_def elim: is_request.elims)

lemma recordNotification_effect:
  "\<exists>c cr. trace (recordNotification env d nf st w) = trace w @ [DbCreate c cr]
     \<and> tbl_notifications (recordNotification env d nf st w)
         = tbl_notifications w @ stored [DbCreate c cr]
     \<and> row_key c = (ID d, type_name nf, audit_content d, st)
     \<and> cr = db_Create_err env (Suc (ticks w)) c
     \<and> tbl_domains (recordNotification env d nf st w) = tbl_domains w"
  by (cases "db_Create_err env (Suc (ticks w))
        \<lparr>n_DomainID = ID d, n_Type = type_name nf, n_Content = audit_content d,
           n_Status = st, n_SentAt = Now env (ticks w)\<rparr>")
     (simp_all add: recordNotification_def Let_def emit_def tick_def row_key_def audit_content_def)

lemma SendNotification_loop_char:
  "\<exists>es. trace (snd (snd (SendNotification_loop env d n ns (le, sc, w)))) = trace w @ es
     \<and> map (\<lambda>(nf, days, r). (nf, days)) (sends es) = map (\<lambda>nf. (nf, n)) ns
     \<and> map row_key (creates es)
         = map (\<lambda>(nf, days, r). (ID d, type_name nf, audit_content d, status_of r)) (sends es)
     \<and> tbl_notifications (snd (snd (SendNotification_loop env d n ns (le, sc, w))))
         = tbl_notifications w @ stored es
     \<and> filter is_dispatch es
         = concat (map (\<lambda>((nf, days, r), (c, cr)). [Sent nf days r, DbCreate c cr])
                    (zip (sends es) (inserts es)))
     \<and> fst (SendNotification_loop env d n ns (le, sc, w))
         = fold keep_error (map (\<lambda>(nf, days, r). r) (sends es)) le
     \<and> fst (snd (SendNotification_loop env d n ns (le, sc, w)))
         = sc + length (filter (\<lambda>r. r = None) (map (\<lambda>(nf, days, r). r) (sends es)))
     \<and> tbl_domains (snd (snd (SendNotification_loop env d n ns (le, sc, w)))) = tbl_domains w
     \<and> (\<forall>x \<in> set (inserts es). \<exists>k. snd x = db_Create_err env k (fst x))"
proof (induction ns arbitrary: le sc w)
  case Nil
  show ?case by (rule exI [of _ "[]"]) simp
next
  case (Cons nf ns)
  obtain r w1 where S: "Send env nf d n w = (r, w1)" by (cases "Send env nf d n w")
  obtain es1 where E1: "trace w1 = trace w @ es1" "list_all is_request es1"
      "tbl_notifications w1 = tbl_notifications w" "tbl_domains w1 = tbl_domains w"
    using Send_effect [of env nf d n w] S by auto
  define w2 where "w2 = recordNotification env d nf (status_of r) (emit (Sent nf n r) w1)"
  obtain c cr where C: "trace w2 = trace w1 @ [Sent nf n r] @ [DbCreate c cr]"
      "tbl_notifications w2 = tbl_notifications w1 @ stored [DbCreate c cr]"
      "row_key c = (ID d, type_name nf, audit_content d, status_of r)"
      "\<exists>k. cr = db_Create_err env k c"
      "tbl_domains w2 = tbl_domains w1"
    using recordNotification_effect [of env d nf "status_of r" "emit (Sent nf n r) w1"]
    by (auto simp: w2_def emit_def)
  define le2 where "le2 = keep_error r le"
  define sc2 where "sc2 = (if r = None then sc + 1 else sc)"
  have step: "SendNotification_loop env d n (nf # ns) (le, sc, w)
      = SendNotification_loop env d n ns (le2, sc2, w2)"
    using S by (cases r) (simp_all add: w2_def le2_def sc2_def status_of_def)
  obtain es2 where IH:
    "trace (snd (snd (SendNotification_loop env d n ns (le2, sc2, w2)))) = trace w2 @ es2"
    "map (\<lambda>(nf, days, r). (nf, days)) (sends es2) = map (\<lambda>nf. (nf, n)) ns"
    "map row_key (creates es2)
         = map (\<lambda>(nf, days, r). (ID d, type_name nf, audit_content d, status_of r)) (sends es2)"
    "tbl_notifications (snd (snd (SendNotification_loop env d n ns (le2, sc2, w2))))
         = tbl_notifications w2 @ stored es2"
    "filter is_dispatch es2
         = concat (map (\<lambda>((nf, days, r), (c, cr)). [Sent nf days r, DbCreate c cr])
                    (zip (sends es2) (inserts es2)))"
    "fst (SendNotification_loop env d n ns (le2, sc2, w2))
         = fold keep_error (map (\<lambda>(nf, days, r). r) (sends es2)) le2"
    "fst (snd (SendNotification_loop env d n ns (le2, sc2, w2)))
         = sc2 + length (filter (\<lambda>r. r = None) (map (\<lambda>(nf, days, r). r) (sends es2)))"
    "tbl_domains (snd (snd (SendNotification_loop env d n ns (le2, sc2, w2)))) = tbl_domains w2"
    "\<forall>x \<in> set (inserts es2). \<exists>k. snd x = db_Create_err env k (fst x)"
    using Cons.IH [of le2 sc2 w2] by blast
  let ?es = "es1 @ [Sent nf n r] @ [DbCreate c cr] @ es2"
  have s1: "sends es1 = []" and c1: "inserts es1 = []" and d1: "filter is_dispatch es1 = []"
    using E1(2) by (simp_all add: sends_requests inserts_requests dispatch_requests)
  have sends: "sends ?es = (nf, n, r) # sends es2"
    using s1 by simp
  have inserts: "inserts ?es = (c, cr) # inserts es2"
    using c1 by simp
  have creates: "creates ?es = c # creates es2"
    using inserts by (simp add: creates_def)
  have stored: "stored ?es = stored [DbCreate c cr] @ stored es2"
    using c1 by (simp add: stored_def)
  have disp: "filter is_dispatch ?es = [Sent nf n r, DbCreate c cr] @ filter is_dispatch es2"
    using d1 by (simp add: is_dispatch_def)
  show ?case
  proof (rule exI [of _ ?es], intro conjI)
    show "trace (snd (snd (SendNotification_loop env d n (nf # ns) (le, sc, w)))) = trace w @ ?es"
      unfolding step using IH(1) C(1) E1(1) by simp
    show "map (\<lambda>(nf, days, r). (nf, days)) (sends ?es) = map (\<lambda>nf. (nf, n)) (nf # ns)"
      unfolding sends using IH(2) by simp
    show "map row_key (creates ?es)
         = map (\<lambda>(nf, days, r). (ID d, type_name nf, audit_content d, status_of r)) (sends ?es)"
      unfolding sends creates using IH(3) C(3) by simp
    show "tbl_notifications (snd (snd (SendNotification_loop env d n (nf # ns) (le, sc, w))))
         = tbl_notifications w @ stored ?es"
      unfolding step stored using IH(4) C(2) E1(3) by simp
    show "filter is_dispatch ?es
         = concat (map (\<lambda>((nf, days, r), (c, cr)). [Sent nf days r, DbCreate c cr])
                    (zip (sends ?es) (inserts ?es)))"
      unfolding sends inserts disp using IH(5) by simp
    show "fst (SendNotification_loop env d n (nf # ns) (le, sc, w))
         = fold keep_error (map (\<lambda>(nf, days, r). r) (sends ?es)) le"
      unfolding step sends using IH(6) by (simp add: le2_def)
    show "fst (snd (SendNotification_loop env d n (nf # ns) (le, sc, w)))
         = sc + length (filter (\<lambda>r. r = None) (map (\<lambda>(nf, days, r). r) (sends ?es)))"
      unfolding step sends using IH(7) by (simp add: sc2_def)
    show "tbl_domains (snd (snd (SendNotification_loop env d n (nf # ns) (le, sc, w)))) = tbl_domains w"
      unfolding step using IH(8) C(5) E1(4) by simp
    show "\<forall>x \<in> set (inserts ?es). \<exists>k. snd x = db_Create_err env k (fst x)"
      unfolding inserts using IH(9) C(4) by simp
  qed
qed

lemma SendNotification_new_events:
  "trace (snd (SendNotification env s d n w))
     = trace w @ new_events w (snd (SendNotification env s d n w))"
proof -
  obtain es where "trace (snd (snd (SendNotification_loop env d n (notifiers s) (None, 0, w)))) = trace w @ es"
    using SendNotification_loop_char [of env d n "notifiers s" None 0 w] by blast
  moreover obtain le' sc' w' where "SendNotification_loop env d n (notifiers s) (None, 0, w) = (le', sc', w')"
    by (cases "SendNotification_loop env d n (notifiers s) (None, 0, w)")
  ultimately show ?thesis
    by (simp add: SendNotification_def new_events_def)
qed

lemma SendNotification_char:
  fixes env s d n w
  defines "R \<equiv> SendNotification env s d n w"
  defines "es \<equiv> new_events w (snd R)"
  shows "map (\<lambda>(nf, days, r). (nf, days)) (sends es) = map (\<lambda>nf. (nf, n)) (notifiers s)"
    and "map row_key (creates es)
         = map (\<lambda>(nf, days, r). (ID d, type_name nf, audit_content d, status_of r)) (sends es)"
    and "tbl_notifications (snd R) = tbl_notifications w @ stored es"
    and "filter is_dispatch es
         = concat (map (\<lambda>((nf, days, r), (c, cr)). [Sent nf days r, DbCreate c cr])
                    (zip (sends es) (inserts es)))"
    and "fst R = (if 0 < length (filter (\<lambda>r. r = None) (results es)) \<and> fold keep_error (results es) None \<noteq> None
                  then None else fold keep_error (results es) None)"
    and "tbl_domains (snd R) = tbl_domains w"
    and "\<forall>x \<in> set (inserts es). \<exists>k. snd x = db_Create_err env k (fst x)"
proof -
  let ?L = "SendNotification_loop env d n (notifiers s) (None, 0, w)"
  obtain es' where L: "trace (snd (snd ?L)) = trace w @ es'"
     "map (\<lambda>(nf, days, r). (nf, days)) (sends es') = map (\<lambda>nf. (nf, n)) (notifiers s)"
     "map row_key (creates es')
         = map (\<lambda>(nf, days, r). (ID d, type_name nf, audit_content d, status_of r)) (sends es')"
     "tbl_notifications (snd (snd ?L)) = tbl_notifications w @ stored es'"
     "filter is_dispatch es'
         = concat (map (\<lambda>((nf, days, r), (c, cr)). [Sent nf days r, DbCreate c cr])
                    (zip (sends es') (inserts es')))"
     "fst ?L = fold keep_error (map (\<lambda>(nf, days, r). r) (sends es')) None"
     "fst (snd ?L) = 0 + length (filter (\<lambda>r. r = None) (map (\<lambda>(nf, days, r). r) (sends es')))"
     "tbl_domains (snd (snd ?L)) = tbl_domains w"
     "\<forall>x \<in> set (inserts es'). \<exists>k. snd x = db_Create_err env k (fst x)"
    using SendNotification_loop_char [of env d n "notifiers s" None 0 w] by blast
  obtain le' sc' w'' where LL: "?L = (le', sc', w'')"
    by (cases ?L)
  have w': "snd R = snd (snd ?L)"
    by (simp add: R_def SendNotification_def LL)
  have es: "es = es'"
    using L(1) by (simp add: es_def new_events_def w')
  show "map (\<lambda>(nf, days, r). (nf, days)) (sends es) = map (\<lambda>nf. (nf, n)) (notifiers s)"
    using L(2) es by simp
  show "map row_key (creates es)
         = map (\<lambda>(nf, days, r). (ID d, type_name nf, audit_content d, status_of r)) (sends es)"
    using L(3) es by simp
  show "tbl_notifications (snd R) = tbl_notifications w @ stored es"
    using L(4) es w' by simp
  show "filter is_dispatch es
         = concat (map (\<lambda>((nf, days, r), (c, cr)). [Sent nf days r, DbCreate c cr])
                    (zip (sends es) (inserts es)))"
    using L(5) es by simp
  show "fst R = (if 0 < length (filter (\<lambda>r. r = None) (results es)) \<and> fold keep_error (results es) None \<noteq> None
                  then None else fold keep_error (results es) None)"
    using L(6,7) es by (simp add: R_def SendNotification_def results_def LL)
  show "tbl_domains (snd R) = tbl_domains w"
    using L(8) w' by simp
  show "\<forall>x \<in> set (inserts es). \<exists>k. snd x = db_Create_err env k (fst x)"
    using L(9) es by simp
qed

lemma fold_keep_error_all_failed:
  "rs \<noteq> [] \<Longrightarrow> None \<notin> set rs \<Longrightarrow> fold keep_error rs acc = last rs"
proof (induction rs arbitrary: acc)
  case Nil
  then show ?case by simp
next
  case (Cons r rs)
  then obtain e where "r = Some e" by (cases r) auto
  with Cons show ?case by (cases rs) auto
qed

lemmas sample_defs = sample_env_def sample_domain_def sample_world_def sample_info_def
  hook_up_def hook_down_def hook_broken_def telegram_up_def

lemmas run_defs = SendNotification_def WebhookNotifier_Send_def TelegramNotifier_Send_def
  recordNotification_def emit_def tick_def Let_def new_events_def results_def
  webhook_payload_def telegram_message_def

text \<open>
  C2 (amended). The verdict of \<open>SendNotification\<close> over the results of its senders, in
  the order of the calls: there is one result per configured sender; when some sender
  succeeded the call returns \<open>nil\<close>; when there are senders and all of them failed it
  returns the error of the last one; and with no sender configured it returns \<open>nil\<close>.
\<close>

theorem SendNotification_verdict:
  fixes env s d n w
  defines "R \<equiv> SendNotification env s d n w"
  defines "rs \<equiv> results (new_events w (snd R))"
  shows "length rs = length (notifiers s)
     \<and> (None \<in> set rs \<longrightarrow> fst R = None)
     \<and> (rs \<noteq> [] \<and> None \<notin> set rs \<longrightarrow> fst R = last rs)
     \<and> (notifiers s = [] \<longrightarrow> fst R = None)"
proof -
  have len: "length rs = length (notifiers s)"
    using SendNotification_char(1) [where env=env and w=w and s=s and d=d and n=n, THEN arg_cong, of length]
    by (simp add: rs_def R_def results_def)
  have verdict: "fst R = (if 0 < length (filter (\<lambda>r. r = None) rs) \<and> fold keep_error rs None \<noteq> None
                  then None else fold keep_error rs None)"
    using SendNotification_char(5) [where env=env and w=w and s=s and d=d and n=n] by (simp add: rs_def R_def)
  have one: "fst R = None" if "None \<in> set rs"
  proof -
    have "filter (\<lambda>r. r = None) rs \<noteq> []"
      using that by (simp add: filter_empty_conv)
    then show ?thesis using verdict by auto
  qed
  have all: "fst R = last rs" if "rs \<noteq> []" "None \<notin> set rs"
  proof -
    have "filter (\<lambda>r. r = None) rs = []"
      using that(2) by (auto simp: filter_empty_conv intro: ccontr)
    then show ?thesis
      using verdict fold_keep_error_all_failed [OF that, of None] by simp
  qed
  have zero: "fst R = None" if "notifiers s = []"
    using that len verdict by simp
  show ?thesis using len one all zero by blast
qed

theorem SendNotification_verdict_witness:
  "results (new_events sample_world
      (snd (SendNotification sample_env \<lparr>notifiers = [hook_up, hook_down]\<rparr> sample_domain 7 sample_world)))
     = [None, Some (ErrorString ''connection refused'')]
   \<and> fst (SendNotification sample_env \<lparr>notifiers = [hook_up, hook_down]\<rparr> sample_domain 7 sample_world) = None
   \<and> results (new_events sample_world
      (snd (SendNotification sample_env \<lparr>notifiers = [hook_down, hook_broken]\<rparr> sample_domain 7 sample_world)))
     = [Some (ErrorString ''connection refused''), Some (ErrorString ''webhook returned status 500'')]
   \<and> fst (SendNotification sample_env \<lparr>notifiers = [hook_down, hook_broken]\<rparr> sample_domain 7 sample_world)
     = Some (ErrorString ''webhook returned status 500'')
   \<and> fst (SendNotification sample_env \<lparr>notifiers = []\<rparr> sample_domain 7 sample_world) = None"
proof -
  have r1: "results (new_events sample_world
      (snd (SendNotification sample_env \<lparr>notifiers = [hook_up, hook_down]\<rparr> sample_domain 7 sample_world)))
     = [None, Some (ErrorString ''connection refused'')]"
    by (simp add: run_defs sample_defs)
  have r2: "results (new_events sample_world
      (snd (SendNotification sample_env \<lparr>notifiers = [hook_down, hook_broken]\<rparr> sample_domain 7 sample_world)))
     = [Some (ErrorString ''connection refused''), Some (ErrorString ''webhook returned status 500'')]"
    by (simp add: run_defs sample_defs itoa_def utoa.simps digit_def)
  show ?thesis
    using SendNotification_verdict [where env=sample_env and w=sample_world and s="\<lparr>notifiers = [hook_up, hook_down]\<rparr>" and d=sample_domain and n=7]
      SendNotification_verdict [where env=sample_env and w=sample_world and s="\<lparr>notifiers = [hook_down, hook_broken]\<rparr>" and d=sample_domain and n=7]
      SendNotification_verdict [where env=sample_env and w=sample_world and s="\<lparr>notifiers = []\<rparr>" and d=sample_domain and n=7]
    by (simp add: r1 r2)
qed

text \<open>With no sender configured the call does not fail.\<close>

theorem SendNotification_no_senders_counterexample:
  "notifiers \<lparr>notifiers = []\<rparr> = []
   \<and> fst (SendNotification sample_env \<lparr>notifiers = []\<rparr> sample_domain 7 sample_world) = None"
  by (simp add: SendNotification_def)


text \<open>
  C6 (amended). In a call of \<open>SendNotification\<close> every configured sender is called exactly
  once, in the order of the configuration and with the day count of the call, whatever
  the earlier senders returned; for each sender one insert into the notification table is
  issued, for the record of the call, with the type of the sender and the status
  \<open>success\<close> or \<open>failed\<close> of its result, right after the call of that sender and before
  the next sender is called. The table grows by the rows that the database accepted: by
  all of them, one per sender, when the database accepts every insert.
\<close>

theorem SendNotification_every_sender:
  fixes env s d n w
  defines "R \<equiv> SendNotification env s d n w"
  defines "es \<equiv> new_events w (snd R)"
  shows "map (\<lambda>(nf, days, r). (nf, days)) (sends es) = map (\<lambda>nf. (nf, n)) (notifiers s)
     \<and> length (creates es) = length (notifiers s)
     \<and> map (\<lambda>c. (n_DomainID c, n_Type c, n_Status c)) (creates es)
         = map (\<lambda>(nf, days, r). (ID d, type_name nf, status_of r)) (sends es)
     \<and> filter is_dispatch es
         = concat (map (\<lambda>((nf, days, r), (c, cr)). [Sent nf days r, DbCreate c cr])
                    (zip (sends es) (inserts es)))
     \<and> tbl_notifications (snd R) = tbl_notifications w @ stored es
     \<and> ((\<forall>k c. db_Create_err env k c = None) \<longrightarrow>
          tbl_notifications (snd R) = tbl_notifications w @ creates es)"
proof -
  note ch = SendNotification_char [where env=env and w=w and s=s and d=d and n=n, folded R_def, folded es_def]
  have len_sends: "length (sends es) = length (notifiers s)"
    using ch(1) [THEN arg_cong, of length] by simp
  have len_creates: "length (creates es) = length (sends es)"
    using ch(2) [THEN arg_cong, of length] by simp
  have keys: "map (\<lambda>c. (n_DomainID c, n_Type c, n_Status c)) (creates es)
         = map (\<lambda>(nf, days, r). (ID d, type_name nf, status_of r)) (sends es)"
    using ch(2) [THEN arg_cong, of "map (\<lambda>(a, b, c, e). (a, b, e))"]
    by (simp add: comp_def row_key_def case_prod_beta)
  have accepted: "stored es = creates es" if "\<forall>k c. db_Create_err env k c = None"
  proof (rule stored_accepted, rule ballI)
    fix x assume "x \<in> set (inserts es)"
    then obtain k where "snd x = db_Create_err env k (fst x)" using ch(7) by blast
    then show "snd x = None" using that by simp
  qed
  show ?thesis
    using ch(1) ch(3) ch(4) len_sends len_creates keys accepted by simp
qed

text \<open>Three channels of which the second fails, with a database that accepts every
  insert: the rows are \<open>success\<close>, \<open>failed\<close>, \<open>success\<close> and the call returns \<open>nil\<close>.\<close>

theorem SendNotification_every_sender_witness:
  "map n_Status (creates (new_events sample_world
      (snd (SendNotification sample_env \<lparr>notifiers = [hook_up, hook_down, telegram_up]\<rparr>
              sample_domain 7 sample_world))))
     = [''success'', ''failed'', ''success'']
   \<and> map n_Type (creates (new_events sample_world
      (snd (SendNotification sample_env \<lparr>notifiers = [hook_up, hook_down, telegram_up]\<rparr>
              sample_domain 7 sample_world))))
     = [''*services.WebhookNotifier'', ''*services.WebhookNotifier'', ''*services.TelegramNotifier'']
   \<and> length (tbl_notifications
      (snd (SendNotification sample_env \<lparr>notifiers = [hook_up, hook_down, telegram_up]\<rparr>
              sample_domain 7 sample_world))) = 3
   \<and> fst (SendNotification sample_env \<lparr>notifiers = [hook_up, hook_down, telegram_up]\<rparr>
              sample_domain 7 sample_world) = None"
proof -
  let ?R = "SendNotification sample_env \<lparr>notifiers = [hook_up, hook_down, telegram_up]\<rparr>
              sample_domain 7 sample_world"
  have s: "sends (new_events sample_world (snd ?R))
      = [(hook_up, 7, None), (hook_down, 7, Some (ErrorString ''connection refused'')),
         (telegram_up, 7, None)]"
    by (simp add: run_defs sample_defs)
  have r: "fst ?R = None"
    by (simp add: run_defs sample_defs)
  have t: "tbl_notifications sample_world = []"
    by (simp add: sample_world_def)
  have a: "\<forall>k c. db_Create_err sample_env k c = None"
    by (simp add: sample_env_def)
  note th = SendNotification_every_sender [where env=sample_env and w=sample_world
      and s="\<lparr>notifiers = [hook_up, hook_down, telegram_up]\<rparr>" and d=sample_domain and n=7]
  have k: "map (\<lambda>c. (n_DomainID c, n_Type c, n_Status c)) (creates (new_events sample_world (snd ?R)))
      = [(1, ''*services.WebhookNotifier'', ''success''), (1, ''*services.WebhookNotifier'', ''failed''),
         (1, ''*services.TelegramNotifier'', ''success'')]"
  proof -
    have "type_name hook_up = ''*services.WebhookNotifier''"
      "type_name hook_down = ''*services.WebhookNotifier''"
      "type_name telegram_up = ''*services.TelegramNotifier''"
      "ID sample_domain = 1"
      by (simp_all add: hook_up_def hook_down_def telegram_up_def sample_domain_def)
    then show ?thesis
      using th by (simp add: s status_of_def)
  qed
  have st: "map n_Status (creates (new_events sample_world (snd ?R))) = [''success'', ''failed'', ''success'']"
    using k [THEN arg_cong, of "map (\<lambda>(a, b, c). c)"] by (simp add: comp_def)
  have ty: "map n_Type (creates (new_events sample_world (snd ?R)))
      = [''*services.WebhookNotifier'', ''*services.WebhookNotifier'', ''*services.TelegramNotifier'']"
    using k [THEN arg_cong, of "map (\<lambda>(a, b, c). b)"] by (simp add: comp_def)
  have ln: "length (tbl_notifications (snd ?R)) = 3"
  proof -
    have "tbl_notifications (snd ?R)
        = tbl_notifications sample_world @ creates (new_events sample_world (snd ?R))"
      using th a by blast
    moreover have "length (creates (new_events sample_world (snd ?R))) = 3"
      using th by simp
    ultimately show ?thesis by (simp add: t)
  qed
  show ?thesis using st ty ln r by simp
qed

text \<open>With a database that refuses the inserts, three senders are called and three
  inserts are issued, no row is added to the table, and the call returns \<open>nil\<close>.\<close>

theorem SendNotification_refused_inserts_counterexample:
  "length (notifiers \<lparr>notifiers = [hook_up, hook_down, telegram_up]\<rparr>) = 3
   \<and> length (creates (new_events sample_world
        (snd (SendNotification
                (sample_env\<lparr>db_Create_err := \<lambda>k c. Some (ErrorString ''database is locked'')\<rparr>)
                \<lparr>notifiers = [hook_up, hook_down, telegram_up]\<rparr> sample_domain 7 sample_world)))) = 3
   \<and> tbl_notifications
        (snd (SendNotification
                (sample_env\<lparr>db_Create_err := \<lambda>k c. Some (ErrorString ''database is locked'')\<rparr>)
                \<lparr>notifiers = [hook_up, hook_down, telegram_up]\<rparr> sample_domain 7 sample_world)) = []
   \<and> fst (SendNotification
            (sample_env\<lparr>db_Create_err := \<lambda>k c. Some (ErrorString ''database is locked'')\<rparr>)
            \<lparr>notifiers = [hook_up, hook_down, telegram_up]\<rparr> sample_domain 7 sample_world) = None"
  by (simp add: run_defs sample_defs)

section \<open>Properties of the monitor engine\<close>

lemma CheckAndNotify_loop_char:
  "CheckAndNotify_loop env ns d ts w
     = (if DaysRemaining d \<in> set ts then dispatch_once env ns d w else w)"
  by (induction ts) (auto simp: dispatch_once_def)

lemma dispatch_once_effect:
  "\<exists>es. trace (dispatch_once env ns d w) = trace w @ es
     \<and> map (\<lambda>(nf, days, r). (nf, days)) (sends es) = map (\<lambda>nf. (nf, DaysRemaining d)) (notifiers ns)
     \<and> length (creates es) = length (notifiers ns)
     \<and> tbl_notifications (dispatch_once env ns d w) = tbl_notifications w @ stored es
     \<and> tbl_domains (dispatch_once env ns d w) = tbl_domains w"
proof -
  define m1 where "m1 = ''Sending notification for domain '' @ Name d
                       @ '' ('' @ itoa (DaysRemaining d) @ '' days remaining)''"
  define w1 where "w1 = emit (LogPrintf m1) w"
  obtain r w2 where R: "SendNotification env ns d (DaysRemaining d) w1 = (r, w2)"
    by (cases "SendNotification env ns d (DaysRemaining d) w1")
  define es where "es = new_events w1 w2"
  note ch = SendNotification_char [where env=env and w=w1 and s=ns and d=d and n="DaysRemaining d",
      unfolded R snd_conv fst_conv, folded es_def]
  have tr: "trace w2 = trace w1 @ es"
    using SendNotification_new_events [of env ns d "DaysRemaining d" w1] by (simp add: R es_def)
  have len: "length (creates es) = length (notifiers ns)"
    using ch(1) [THEN arg_cong, of length] ch(2) [THEN arg_cong, of length] by simp
  have w1: "trace w1 = trace w @ [LogPrintf m1]"
     "tbl_notifications w1 = tbl_notifications w" "tbl_domains w1 = tbl_domains w"
    by (simp_all add: w1_def emit_def)
  define m2 where "m2 = (case r of Some err \<Rightarrow> [LogPrintf (''Failed to send notification for '' @ Name d @ '': '' @ Error err)] | None \<Rightarrow> [])"
  have D: "dispatch_once env ns d w = w2\<lparr>trace := trace w2 @ m2\<rparr>"
    using R unfolding dispatch_once_def Let_def m1_def [symmetric] w1_def [symmetric]
    by (cases r) (simp_all add: m2_def emit_def)
  have m2: "sends m2 = []" "creates m2 = []" "stored m2 = []"
    by (cases r; simp add: m2_def)+
  show ?thesis
    unfolding D
    using tr w1 ch(1) ch(3) ch(6) len m2
    by (intro exI [of _ "[LogPrintf m1] @ es @ m2"]) simp
qed

lemma CheckAndNotify_tables:
  "tbl_domains (CheckAndNotify env s d w) = tbl_domains w"
  using dispatch_once_effect [of env _ d w]
  by (auto simp: CheckAndNotify_def CheckAndNotify_loop_char split: option.splits)

lemma CheckAndNotify_trace:
  "\<exists>es. trace (CheckAndNotify env s d w) = trace w @ es"
  using dispatch_once_effect [of env _ d w]
  by (auto simp: CheckAndNotify_def CheckAndNotify_loop_char split: option.splits)

text \<open>
  C3 (amended). When the monitor has a notification service, \<open>CheckAndNotify\<close> dispatches
  at most once per call: if the day count of the record is among the thresholds, the
  call does what one dispatch with that day count does (every sender of the service is
  called once with it) and the scan stops; if no threshold equals the day count, nothing
  happens. Without a notification service nothing happens, whatever the thresholds.
\<close>

theorem CheckAndNotify_first_match:
  "(notifyService s = Some ns \<and> DaysRemaining d \<in> set (alertDays s) \<longrightarrow>
      CheckAndNotify env s d w = dispatch_once env ns d w
      \<and> map (\<lambda>(nf, days, r). (nf, days)) (sends (new_events w (CheckAndNotify env s d w)))
          = map (\<lambda>nf. (nf, DaysRemaining d)) (notifiers ns))
   \<and> (notifyService s = Some ns \<and> DaysRemaining d \<notin> set (alertDays s) \<longrightarrow>
      CheckAndNotify env s d w = w)
   \<and> (notifyService s = None \<longrightarrow> CheckAndNotify env s d w = w)"
proof -
  obtain es where es: "trace (dispatch_once env ns d w) = trace w @ es"
     "map (\<lambda>(nf, days, r). (nf, days)) (sends es) = map (\<lambda>nf. (nf, DaysRemaining d)) (notifiers ns)"
    using dispatch_once_effect [of env ns d w] by blast
  then have "map (\<lambda>(nf, days, r). (nf, days)) (sends (new_events w (dispatch_once env ns d w)))
          = map (\<lambda>nf. (nf, DaysRemaining d)) (notifiers ns)"
    by (simp add: new_events_def)
  then show ?thesis
    by (simp add: CheckAndNotify_def CheckAndNotify_loop_char)
qed

theorem CheckAndNotify_first_match_witness:
  "CheckAndNotify sample_env sample_monitor (sample_domain\<lparr>DaysRemaining := 14\<rparr>) sample_world
     = sample_world
   \<and> map (\<lambda>(nf, days, r). (nf, days))
        (sends (new_events sample_world
           (CheckAndNotify sample_env sample_monitor sample_domain sample_world)))
     = [(hook_up, 7), (hook_down, 7)]
   \<and> CheckAndNotify sample_env (sample_monitor\<lparr>notifyService := None\<rparr>) sample_domain sample_world
     = sample_world"
proof -
  have a: "notifyService sample_monitor = Some sample_notify" "alertDays sample_monitor = [30, 7, 1]"
      "notifiers sample_notify = [hook_up, hook_down]"
      "DaysRemaining sample_domain = 7" "DaysRemaining (sample_domain\<lparr>DaysRemaining := 14\<rparr>) = 14"
    by (simp_all add: sample_monitor_def sample_notify_def sample_domain_def)
  show ?thesis
    using CheckAndNotify_first_match [of sample_monitor sample_notify "sample_domain\<lparr>DaysRemaining := 14\<rparr>"
        sample_env sample_world]
      CheckAndNotify_first_match [of sample_monitor sample_notify sample_domain sample_env sample_world]
      CheckAndNotify_first_match [of "sample_monitor\<lparr>notifyService := None\<rparr>" sample_notify sample_domain
        sample_env sample_world]
    by (auto simp: a)
qed

text \<open>Without a notification service a record whose day count equals a threshold is not
  dispatched.\<close>

theorem CheckAndNotify_no_service_counterexample:
  "DaysRemaining sample_domain \<in> set (alertDays (sample_monitor\<lparr>notifyService := None\<rparr>))
   \<and> CheckAndNotify sample_env (sample_monitor\<lparr>notifyService := None\<rparr>) sample_domain sample_world
     = sample_world"
  by (simp add: CheckAndNotify_def sample_monitor_def sample_domain_def)

lemma find_row_save_row [simp]: "k = ID d \<Longrightarrow> find_row k (save_row d rows) = Some d"
  by (induction rows) auto

lemma find_row_save_row_other: "k \<noteq> ID d \<Longrightarrow> find_row k (save_row d rows) = find_row k rows"
  by (induction rows) auto

text \<open>
  C4 (amended). When the lookup fails, \<open>CheckDomain\<close> returns an error that wraps the
  lookup error (its message is \<open>WHOIS query failed: \<close> followed by the message of the
  lookup error, and unwrapping it gives the lookup error itself), leaves the record as
  it was, saves nothing (both tables are unchanged) and does nothing else than the
  query.
\<close>

theorem CheckDomain_lookup_failure:
  assumes "whois_QueryDomain env (ticks w) (Name d) = Inl err"
  shows "fst (CheckDomain env s d w) = Some (WrapError (''WHOIS query failed: '' @ Error err) err)
     \<and> fst (snd (CheckDomain env s d w)) = d
     \<and> tbl_domains (snd (snd (CheckDomain env s d w))) = tbl_domains w
     \<and> tbl_notifications (snd (snd (CheckDomain env s d w))) = tbl_notifications w
     \<and> new_events w (snd (snd (CheckDomain env s d w))) = [WhoisQuery (Name d)]"
  using assms
  by (simp add: CheckDomain_def Let_def Errorf_w_def emit_def tick_def new_events_def)

theorem CheckDomain_lookup_failure_witness:
  "fst (CheckDomain sample_env sample_monitor (sample_domain\<lparr>Name := ''down.example''\<rparr>) sample_world)
     = Some (WrapError ''WHOIS query failed: timeout'' (ErrorString ''timeout''))
   \<and> fst (snd (CheckDomain sample_env sample_monitor (sample_domain\<lparr>Name := ''down.example''\<rparr>)
                 sample_world))
     = sample_domain\<lparr>Name := ''down.example''\<rparr>
   \<and> tbl_domains (snd (snd (CheckDomain sample_env sample_monitor
        (sample_domain\<lparr>Name := ''down.example''\<rparr>) sample_world))) = [sample_domain]"
proof -
  have "whois_QueryDomain sample_env (ticks sample_world) (Name (sample_domain\<lparr>Name := ''down.example''\<rparr>))
      = Inl (ErrorString ''timeout'')"
    by (simp add: sample_env_def)
  from CheckDomain_lookup_failure [OF this, of sample_monitor]
  show ?thesis by (simp add: sample_world_def)
qed

text \<open>The error returned is not the lookup error itself.\<close>

theorem CheckDomain_lookup_failure_counterexample:
  "whois_QueryDomain sample_env (ticks sample_world) (Name (sample_domain\<lparr>Name := ''down.example''\<rparr>))
     = Inl (ErrorString ''timeout'')
   \<and> fst (CheckDomain sample_env sample_monitor (sample_domain\<lparr>Name := ''down.example''\<rparr>) sample_world)
     \<noteq> Some (ErrorString ''timeout'')"
  by (simp add: CheckDomain_def Let_def Errorf_w_def sample_env_def)

text \<open>
  C9. When the lookup succeeds with a zero expiry date, \<open>CheckDomain\<close> keeps the day count
  of the record as it was and applies the other facts of the lookup (registrar, the three
  dates, status) and the time of the check; when the save succeeds, this record is the
  row of the table and the call returns \<open>nil\<close>.
\<close>

theorem CheckDomain_zero_expiry:
  assumes "whois_QueryDomain env (ticks w) (Name d) = Inr info"
    and "IsZero (i_ExpiryDate info)"
  shows "DaysRemaining (fst (snd (CheckDomain env s d w))) = DaysRemaining d
     \<and> fst (snd (CheckDomain env s d w))
         = d\<lparr>Registrar := i_Registrar info, ExpiryDate := i_ExpiryDate info,
              CreatedDate := i_CreatedDate info, UpdatedDate := i_UpdatedDate info,
              Status := i_Status info, LastChecked := Now env (Suc (ticks w))\<rparr>
     \<and> (db_Save_err env (Suc (Suc (ticks w))) (fst (snd (CheckDomain env s d w))) = None \<longrightarrow>
          fst (CheckDomain env s d w) = None
          \<and> find_row (ID d) (tbl_domains (snd (snd (CheckDomain env s d w))))
              = Some (fst (snd (CheckDomain env s d w))))"
  using assms
  by (auto simp: CheckDomain_def Let_def emit_def tick_def CheckAndNotify_tables
      split: option.splits)

theorem CheckDomain_zero_expiry_witness:
  "DaysRemaining (fst (snd (CheckDomain sample_env sample_monitor
      (sample_domain\<lparr>Name := ''noexpiry.example''\<rparr>) sample_world))) = 7
   \<and> Registrar (fst (snd (CheckDomain sample_env sample_monitor
      (sample_domain\<lparr>Name := ''noexpiry.example''\<rparr>) sample_world))) = ''Example Registrar''
   \<and> ExpiryDate (fst (snd (CheckDomain sample_env sample_monitor
      (sample_domain\<lparr>Name := ''noexpiry.example''\<rparr>) sample_world))) = 0
   \<and> fst (CheckDomain sample_env sample_monitor
      (sample_domain\<lparr>Name := ''noexpiry.example''\<rparr>) sample_world) = None"
proof -
  have a: "whois_QueryDomain sample_env (ticks sample_world)
        (Name (sample_domain\<lparr>Name := ''noexpiry.example''\<rparr>))
      = Inr (sample_info\<lparr>i_ExpiryDate := 0\<rparr>)"
    by (simp add: sample_env_def)
  have b: "IsZero (i_ExpiryDate (sample_info\<lparr>i_ExpiryDate := 0\<rparr>))"
    by (simp add: IsZero_def)
  have c: "db_Save_err sample_env n x = None" for n x
    by (simp add: sample_env_def)
  from CheckDomain_zero_expiry [OF a b, of sample_monitor]
  show ?thesis by (simp add: c sample_domain_def sample_info_def)
qed

section \<open>Properties of the channel senders\<close>

lemma Contains_iff: "Contains s sub \<longleftrightarrow> (\<exists>p q. s = p @ sub @ q)"
proof (induction s)
  case Nil
  then show ?case by auto
next
  case (Cons c cs)
  show ?case
  proof
    assume "Contains (c # cs) sub"
    then consider "prefix sub (c # cs)" | "Contains cs sub" by auto
    then show "\<exists>p q. c # cs = p @ sub @ q"
    proof cases
      case 1
      then obtain q where "c # cs = sub @ q" by (auto simp: prefix_def)
      then have "c # cs = [] @ sub @ q" by simp
      then show ?thesis by blast
    next
      case 2
      then obtain p q where "cs = p @ sub @ q" using Cons.IH by blast
      then have "c # cs = (c # p) @ sub @ q" by simp
      then show ?thesis by blast
    qed
  next
    assume "\<exists>p q. c # cs = p @ sub @ q"
    then obtain p q where pq: "c # cs = p @ sub @ q" by blast
    show "Contains (c # cs) sub"
    proof (cases p)
      case Nil
      then have "prefix sub (c # cs)" using pq by (simp add: prefix_def)
      then show ?thesis by simp
    next
      case (Cons a p')
      then have "cs = p' @ sub @ q" using pq by simp
      then have "Contains cs sub" using Cons.IH by blast
      then show ?thesis by simp
    qed
  qed
qed

text \<open>
  C8. \<open>EmailNotifier.Send\<close> returns \<open>nil\<close> when \<open>smtp.SendMail\<close> returns no error, and also
  when the message of its error contains \<open>short response\<close>; for every other error of
  \<open>smtp.SendMail\<close> it returns an error that wraps it, with the message
  \<open>failed to send email: \<close> in front.
\<close>

theorem EmailNotifier_Send_result:
  "fst (EmailNotifier_Send env config d n w) =
     (case smtp_SendMail env (Suc (ticks w)) (SMTPHost config @ '':'' @ itoa (SMTPPort config))
             ('''', From config, Password config, SMTPHost config) (From config) (To config)
             (email_message config (email_subject d n) (email_body env d n (Now env (ticks w)))) of
        None \<Rightarrow> None
      | Some e \<Rightarrow>
          if \<exists>p q. Error e = p @ ''short response'' @ q then None
          else Some (WrapError (''failed to send email: '' @ Error e) e))"
proof (cases "smtp_SendMail env (Suc (ticks w)) (SMTPHost config @ '':'' @ itoa (SMTPPort config))
             ('''', From config, Password config, SMTPHost config) (From config) (To config)
             (email_message config (email_subject d n) (email_body env d n (Now env (ticks w))))")
  case None
  then show ?thesis
    by (simp add: EmailNotifier_Send_def Let_def tick_def)
next
  case (Some e)
  then show ?thesis
    using Contains_iff [of "Error e" "''short response''"]
    by (simp add: EmailNotifier_Send_def Let_def tick_def Errorf_w_def)
qed

theorem EmailNotifier_Send_result_witness:
  "fst (EmailNotifier_Send sample_env (mail_to ''smtp.example.com'' 465) sample_domain 7 sample_world)
     = None
   \<and> fst (EmailNotifier_Send sample_env (mail_to ''smtp.quirk.example'' 465) sample_domain 7 sample_world)
     = None
   \<and> fst (EmailNotifier_Send sample_env (mail_to ''smtp.closed.example'' 25) sample_domain 7 sample_world)
     = Some (WrapError ''failed to send email: 535 authentication failed''
               (ErrorString ''535 authentication failed''))"
proof -
  have a: "SMTPHost (mail_to h p) = h" "SMTPPort (mail_to h p) = p" for h p
    by (simp_all add: mail_to_def)
  have i: "itoa 465 = ''465''" "itoa 25 = ''25''"
    by (simp_all add: itoa_def utoa.simps digit_def)
  have s: "smtp_SendMail sample_env k ''smtp.example.com:465'' au f t m = None"
    "smtp_SendMail sample_env k ''smtp.quirk.example:465'' au f t m
       = Some (ErrorString ''250 OK: short response'')"
    "smtp_SendMail sample_env k ''smtp.closed.example:25'' au f t m
       = Some (ErrorString ''535 authentication failed'')" for k au f t m
    by (simp_all add: sample_env_def)
  have c1: "\<exists>p q. ''250 OK: short response'' = p @ ''short response'' @ q"
    using Contains_iff [of "''250 OK: short response''" "''short response''"] by simp
  have c2: "\<not> (\<exists>p q. ''535 authentication failed'' = p @ ''short response'' @ q)"
    using Contains_iff [of "''535 authentication failed''" "''short response''"] by simp
  show ?thesis
    using EmailNotifier_Send_result [of sample_env "mail_to ''smtp.example.com'' 465" sample_domain 7 sample_world]
      EmailNotifier_Send_result [of sample_env "mail_to ''smtp.quirk.example'' 465" sample_domain 7 sample_world]
      EmailNotifier_Send_result [of sample_env "mail_to ''smtp.closed.example'' 25" sample_domain 7 sample_world]
      c1 c2
    by (simp add: a i s)
qed

section \<open>Decimal rendering is injective\<close>

lemma digit_is_digit: "n < 10 \<Longrightarrow> is_digit (digit n)"
  unfolding is_digit_def digit_def by (rule nth_mem) simp

lemma digit_inj: "a < 10 \<Longrightarrow> b < 10 \<Longrightarrow> digit a = digit b \<Longrightarrow> a = b"
  unfolding digit_def
  by (subst (asm) nth_eq_iff_index_eq) simp_all

lemma utoa_nonempty: "utoa n \<noteq> []"
  by (subst utoa.simps) simp

lemma utoa_digits: "c \<in> set (utoa n) \<Longrightarrow> is_digit c"
proof (induction n rule: utoa.induct)
  case (1 n)
  show ?case
  proof (cases "n < 10")
    case True
    then show ?thesis using "1.prems" by (subst (asm) utoa.simps) (simp add: digit_is_digit)
  next
    case False
    then have "c \<in> set (utoa (n div 10)) \<or> c = digit (n mod 10)"
      using "1.prems" by (subst (asm) utoa.simps) auto
    then show ?thesis
      using "1.IH" [OF False] by (auto simp: digit_is_digit)
  qed
qed

lemma utoa_inj: "utoa a = utoa b \<Longrightarrow> a = b"
proof (induction a arbitrary: b rule: utoa.induct)
  case (1 a)
  have ua: "utoa a = (if a < 10 then [digit a] else utoa (a div 10) @ [digit (a mod 10)])"
    by (subst utoa.simps) simp
  have ub: "utoa b = (if b < 10 then [digit b] else utoa (b div 10) @ [digit (b mod 10)])"
    by (subst utoa.simps) simp
  show ?case
  proof (cases "a < 10")
    case True
    show ?thesis
    proof (cases "b < 10")
      case True
      with \<open>a < 10\<close> "1.prems" ua ub show ?thesis by (simp add: digit_inj)
    next
      case False
      with \<open>a < 10\<close> "1.prems" ua ub utoa_nonempty [of "b div 10"] show ?thesis by simp
    qed
  next
    case False
    show ?thesis
    proof (cases "b < 10")
      case True
      with False "1.prems" ua ub utoa_nonempty [of "a div 10"] show ?thesis by simp
    next
      case bf: False
      from False bf "1.prems" ua ub
      have e: "utoa (a div 10) = utoa (b div 10)" "digit (a mod 10) = digit (b mod 10)" by simp_all
      have "a div 10 = b div 10" using "1.IH" [OF False e(1)] .
      moreover have "a mod 10 = b mod 10" using e(2) by (intro digit_inj) simp_all
      ultimately show ?thesis by (metis div_mult_mod_eq)
    qed
  qed
qed

lemma takeWhile_digits_stops:
  assumes "\<forall>c \<in> set u. is_digit c" and "stops x"
  shows "takeWhile is_digit (u @ x) = u"
proof -
  have "takeWhile is_digit x = []"
    using assms(2) by (cases x) (auto simp: stops_def)
  then show ?thesis
    using assms(1) by (simp add: takeWhile_append2)
qed

lemma utoa_delimited:
  assumes "utoa a @ x = utoa b @ y" and "stops x" and "stops y"
  shows "a = b \<and> x = y"
proof -
  have da: "\<forall>c \<in> set (utoa a). is_digit c" and db: "\<forall>c \<in> set (utoa b). is_digit c"
    using utoa_digits by blast+
  have "takeWhile is_digit (utoa a @ x) = utoa a" "takeWhile is_digit (utoa b @ y) = utoa b"
    by (rule takeWhile_digits_stops [OF da assms(2)], rule takeWhile_digits_stops [OF db assms(3)])
  then have "utoa a = utoa b" using assms(1) by simp
  then show ?thesis using assms(1) utoa_inj by auto
qed

lemma minus_not_digit: "\<not> is_digit CHR ''-''"
  by (simp add: is_digit_def)

lemma itoa_delimited:
  assumes "itoa a @ x = itoa b @ y" and "stops x" and "stops y"
  shows "a = b \<and> x = y"
proof -
  have hd_digit: "is_digit (hd (utoa n))" for n
    using utoa_digits [of "hd (utoa n)" n] utoa_nonempty [of n] by simp
  have hd_app: "hd (utoa n @ z) = hd (utoa n)" for n z
    using utoa_nonempty [of n] by simp
  consider "a < 0" "b < 0" | "0 \<le> a" "0 \<le> b" | "a < 0" "0 \<le> b" | "0 \<le> a" "b < 0"
    by linarith
  then show ?thesis
  proof cases
    case 1
    then have "utoa (nat (- a)) @ x = utoa (nat (- b)) @ y"
      using assms(1) by (simp add: itoa_def)
    from utoa_delimited [OF this assms(2,3)] 1 show ?thesis by auto
  next
    case 2
    then have "utoa (nat a) @ x = utoa (nat b) @ y"
      using assms(1) by (simp add: itoa_def)
    from utoa_delimited [OF this assms(2,3)] 2 show ?thesis by auto
  next
    case 3
    then have "CHR ''-'' # utoa (nat (- a)) @ x = utoa (nat b) @ y"
      using assms(1) by (simp add: itoa_def)
    then have "hd (utoa (nat b) @ y) = CHR ''-''" by (metis list.sel(1))
    then show ?thesis using hd_digit [of "nat b"] hd_app [of "nat b" y] minus_not_digit by simp
  next
    case 4
    then have "utoa (nat a) @ x = CHR ''-'' # utoa (nat (- b)) @ y"
      using assms(1) by (simp add: itoa_def)
    then have "hd (utoa (nat a) @ x) = CHR ''-''" by (metis list.sel(1))
    then show ?thesis using hd_digit [of "nat a"] hd_app [of "nat a" x] minus_not_digit by simp
  qed
qed

lemma itoa_inj: "itoa a = itoa b \<Longrightarrow> a = b"
  using itoa_delimited [of a "[]" b "[]"] by (simp add: stops_def)

section \<open>The day count in the audit content and in the messages\<close>









section \<open>The signature of the signed webhook\<close>

lemma sha256_blocks_two:
  assumes "length w1 = 16" and "length w2 = 16"
  shows "sha256_blocks h (w1 @ w2) = sha256_block (sha256_block h w1) w2"
proof -
  have "sha256_blocks h (w1 @ w2) = sha256_blocks (sha256_block h w1) w2"
    using assms by (subst sha256_blocks.simps) simp
  also have "\<dots> = sha256_blocks (sha256_block (sha256_block h w1) w2) []"
    using assms by (subst sha256_blocks.simps) simp
  also have "\<dots> = sha256_block (sha256_block h w1) w2"
    by (subst sha256_blocks.simps) simp
  finally show ?thesis .
qed

lemma sign_vector_block1:
  "sha256_block
     [1779033703, 3144134277, 1013904242, 2773480762, 1359893119, 2600822924,
     528734635, 1541459225]
     [1157977412, 1396848182, 909522486, 909522486, 909522486, 909522486, 909522486,
     909522486, 909522486, 909522486, 909522486, 909522486, 909522486, 909522486,
     909522486, 909522486] =
     [1966384223, 377553025, 3030809176, 2864474685, 3503027754, 3991087758,
     2268987000, 2260484374]"
  by (simp add: add32_def rotr_def not32_def Ch_def Maj_def bsig0_def bsig1_def ssig0_def ssig1_def
      sha256_K_def sha256_next_def sha256_block_def)

lemma sign_vector_block2:
  "sha256_block
     [1966384223, 377553025, 3030809176, 2864474685, 3503027754, 3991087758,
     2268987000, 2260484374]
     [825700400, 808464432, 808464432, 805991219, 1668441460, 2147483648, 0, 0, 0, 0,
     0, 0, 0, 0, 0, 672] =
     [1315037727, 742255114, 4169659010, 2836503317, 1948104936, 4263860277,
     3678033278, 1623550206]"
  by (simp add: add32_def rotr_def not32_def Ch_def Maj_def bsig0_def bsig1_def ssig0_def ssig1_def
      sha256_K_def sha256_next_def sha256_block_def)

lemma sign_vector_block3:
  "sha256_block
     [1779033703, 3144134277, 1013904242, 2773480762, 1359893119, 2600822924,
     528734635, 1541459225]
     [795819822, 958946396, 1549556828, 1549556828, 1549556828, 1549556828, 1549556828,
     1549556828, 1549556828, 1549556828, 1549556828, 1549556828, 1549556828,
     1549556828, 1549556828, 1549556828] =
     [3514664566, 2346807532, 1158600344, 1953363847, 3535902058, 2719316736,
     745268135, 232594081]"
  by (simp add: add32_def rotr_def not32_def Ch_def Maj_def bsig0_def bsig1_def ssig0_def ssig1_def
      sha256_K_def sha256_next_def sha256_block_def)

lemma sign_vector_block4:
  "sha256_block
     [3514664566, 2346807532, 1158600344, 1953363847, 3535902058, 2719316736,
     745268135, 232594081]
     [1315037727, 742255114, 4169659010, 2836503317, 1948104936, 4263860277,
     3678033278, 1623550206, 2147483648, 0, 0, 0, 0, 0, 0, 768] =
     [826202973, 593450291, 4081107246, 762046000, 3605423392, 2489538042, 1621753091,
     275197634]"
  by (simp add: add32_def rotr_def not32_def Ch_def Maj_def bsig0_def bsig1_def ssig0_def ssig1_def
      sha256_K_def sha256_next_def sha256_block_def)

lemma sign_vector_inner_words:
  "be32 (sha256_pad (map (\<lambda>b. b XOR 54) (bytes ''s3cret'' @ replicate (64 - length (bytes ''s3cret'')) 0) @
      bytes (''1700000000000'' @ [CHR 0x0A] @ ''s3cret''))) =
     [1157977412, 1396848182, 909522486, 909522486, 909522486, 909522486, 909522486,
     909522486, 909522486, 909522486, 909522486, 909522486, 909522486, 909522486,
     909522486, 909522486, 825700400, 808464432, 808464432, 805991219, 1668441460,
     2147483648, 0, 0, 0, 0, 0, 0, 0, 0, 0, 672]"
  by code_simp

lemma sign_vector_inner:
  "sha256 (map (\<lambda>b. b XOR 54) (bytes ''s3cret'' @ replicate (64 - length (bytes ''s3cret'')) 0) @
      bytes (''1700000000000'' @ [CHR 0x0A] @ ''s3cret'')) =
     [78, 97, 226, 31, 44, 61, 234, 10, 248, 135, 242, 130, 169, 17, 155, 21, 116, 29,
     184, 232, 254, 37, 88, 53, 219, 58, 85, 126, 96, 197, 104, 254]"
  unfolding sha256_def sign_vector_inner_words
  using sha256_blocks_two [of
    "[1157977412, 1396848182, 909522486, 909522486, 909522486, 909522486, 909522486, 909522486, 909522486, 909522486, 909522486, 909522486, 909522486, 909522486, 909522486, 909522486]"
    "[825700400, 808464432, 808464432, 805991219, 1668441460, 2147483648, 0, 0, 0, 0, 0, 0, 0, 0, 0, 672]" sha256_init]
  by (simp add: sha256_init_def sign_vector_block1 sign_vector_block2 bytes_of_u32_def)

lemma sign_vector_outer_words:
  "be32 (sha256_pad (map (\<lambda>b. b XOR 92) (bytes ''s3cret'' @ replicate (64 - length (bytes ''s3cret'')) 0) @
     [78, 97, 226, 31, 44, 61, 234, 10, 248, 135, 242, 130, 169, 17, 155, 21, 116, 29,
     184, 232, 254, 37, 88, 53, 219, 58, 85, 126, 96, 197, 104, 254])) =
     [795819822, 958946396, 1549556828, 1549556828, 1549556828, 1549556828, 1549556828,
     1549556828, 1549556828, 1549556828, 1549556828, 1549556828, 1549556828,
     1549556828, 1549556828, 1549556828, 1315037727, 742255114, 4169659010, 2836503317,
     1948104936, 4263860277, 3678033278, 1623550206, 2147483648, 0, 0, 0, 0, 0, 0, 768]"
  by code_simp

lemma sign_vector_outer:
  "sha256 (map (\<lambda>b. b XOR 92) (bytes ''s3cret'' @ replicate (64 - length (bytes ''s3cret'')) 0) @
     [78, 97, 226, 31, 44, 61, 234, 10, 248, 135, 242, 130, 169, 17, 155, 21, 116, 29,
     184, 232, 254, 37, 88, 53, 219, 58, 85, 126, 96, 197, 104, 254]) =
     [49, 62, 219, 93, 35, 95, 85, 51, 243, 64, 193, 46, 45, 107, 230, 48, 214, 230,
     101, 32, 148, 99, 85, 250, 96, 169, 253, 3, 16, 103, 46, 194]"
  unfolding sha256_def sign_vector_outer_words
  using sha256_blocks_two [of
    "[795819822, 958946396, 1549556828, 1549556828, 1549556828, 1549556828, 1549556828, 1549556828, 1549556828, 1549556828, 1549556828, 1549556828, 1549556828, 1549556828, 1549556828, 1549556828]"
    "[1315037727, 742255114, 4169659010, 2836503317, 1948104936, 4263860277, 3678033278, 1623550206, 2147483648, 0, 0, 0, 0, 0, 0, 768]" sha256_init]
  by (simp add: sha256_init_def sign_vector_block3 sign_vector_block4 bytes_of_u32_def)

lemma sign_vector_key: "\<not> 64 < length (bytes ''s3cret'')"
  by (simp add: bytes_def)

lemma sign_vector_base64:
  "EncodeToString
     [49, 62, 219, 93, 35, 95, 85, 51, 243, 64, 193, 46, 45, 107, 230, 48, 214, 230,
     101, 32, 148, 99, 85, 250, 96, 169, 253, 3, 16, 103, 46, 194] =
   ''MT7bXSNfVTPzQMEuLWvmMNbmZSCUY1X6YKn9AxBnLsI=''"
  by (simp add: b64_char_def b64_alphabet_def)

text \<open>
  C7. For every timestamp and secret, \<open>generateSign\<close> is the standard base64 encoding of
  HMAC-SHA256, keyed by the bytes of the secret, over the bytes of the timestamp, a line
  feed and the secret; for the secret \<open>s3cret\<close> and the timestamp \<open>1700000000000\<close> it is
  the string below, computed here from the definitions of SHA-256, HMAC and base64.
\<close>

theorem generateSign_hmac_sha256:
  "generateSign timestamp secret
     = EncodeToString (hmac_sha256 (bytes secret) (bytes (timestamp @ [CHR 0x0A] @ secret)))
   \<and> generateSign ''1700000000000'' ''s3cret'' = ''MT7bXSNfVTPzQMEuLWvmMNbmZSCUY1X6YKn9AxBnLsI=''"
proof
  show "generateSign timestamp secret
     = EncodeToString (hmac_sha256 (bytes secret) (bytes (timestamp @ [CHR 0x0A] @ secret)))"
    by (simp add: generateSign_def)
  show "generateSign ''1700000000000'' ''s3cret'' = ''MT7bXSNfVTPzQMEuLWvmMNbmZSCUY1X6YKn9AxBnLsI=''"
    unfolding generateSign_def hmac_sha256_def Let_def
    by (simp only: sign_vector_key if_False sign_vector_inner sign_vector_outer sign_vector_base64)
qed

end
